theory Spec2Isabelle
  imports Complex_Main
begin

text \<open>
  A model of the update-resolution core of the CodePush client for React Native: the
  release resolver of \<^verbatim>\<open>SemverVersioning.js\<close> (latest release, mandatory update,
  rollback), and of \<^verbatim>\<open>CodePush.js\<close> the rollback retry policy, the update check, the
  memoized configuration, the delivery of status reports and the single-flight guard of
  \<^verbatim>\<open>sync\<close>. The definitions come first, each function of the source under its
  own name; what the functions read from the native module, the network and the clock
  is an argument, and what they do to the world is part of the result. The properties
  follow.
\<close>

section \<open>Semantic versions and their precedence\<close>

text \<open>
  The keys of a release history are version strings that the functions of
  \<^verbatim>\<open>SemverVersioning.js\<close> hand to \<^verbatim>\<open>Semver.gt\<close> and \<^verbatim>\<open>Semver.lt\<close>.
  That package is an external dependency. A key is represented by the object the
  package parses it into: the three numbers of the core version, the list of
  pre-release identifiers and the list of build identifiers. A string the package
  rejects makes the comparison throw a TypeError; such strings are no version keys and
  have no representation here. Two different keys can denote versions of equal
  precedence: they may differ in their build identifiers only.
\<close>

datatype prerelease_id = Numeric nat | Alphanumeric string

record SemVer =
  major :: nat
  minor :: nat
  patch :: nat
  prerelease :: "prerelease_id list"
  build :: "string list"

text \<open>
  Modelled from the spec: the comparison of JavaScript strings by \<^verbatim>\<open><\<close>, which the
  package uses for alphanumeric identifiers, is the lexicographic order of the
  character codes; a proper prefix comes first.
\<close>

fun string_lt :: "string \<Rightarrow> string \<Rightarrow> bool" where
  "string_lt [] [] = False"
| "string_lt [] (d # t) = True"
| "string_lt (c # s) [] = False"
| "string_lt (c # s) (d # t) =
     (if (of_char c :: nat) < of_char d then True
      else if (of_char d :: nat) < of_char c then False
      else string_lt s t)"

text \<open>
  Modelled from the spec: \<^verbatim>\<open>compareIdentifiers\<close> of the version-comparison package,
  missing from the sources. Two numeric identifiers compare as numbers, a numeric one
  precedes an alphanumeric one, and two alphanumeric ones compare as strings. The
  result is -1, 0 or 1.
\<close>

fun compareIdentifiers :: "prerelease_id \<Rightarrow> prerelease_id \<Rightarrow> int" where
  "compareIdentifiers (Numeric m) (Numeric n) = (if m = n then 0 else if m < n then - 1 else 1)"
| "compareIdentifiers (Numeric m) (Alphanumeric t) = - 1"
| "compareIdentifiers (Alphanumeric s) (Numeric n) = 1"
| "compareIdentifiers (Alphanumeric s) (Alphanumeric t) =
     (if s = t then 0 else if string_lt s t then - 1 else 1)"

text \<open>JavaScript's \<^verbatim>\<open>a || b\<close> on numbers: \<open>a\<close> unless it is zero.\<close>

definition js_or :: "int \<Rightarrow> int \<Rightarrow> int" where
  "js_or a b = (if a \<noteq> 0 then a else b)"

text \<open>
  Modelled from the spec: \<^verbatim>\<open>compareMain\<close>, \<^verbatim>\<open>comparePre\<close> and \<^verbatim>\<open>compare\<close> of
  the package's version object. The core version decides first; with equal cores a
  version that has pre-release identifiers precedes one that has none, and two
  pre-release lists are compared one identifier after the other, the shorter list first when
  one is a prefix of the other. Build identifiers take no part.
\<close>

definition compareMain :: "SemVer \<Rightarrow> SemVer \<Rightarrow> int" where
  "compareMain a b =
     js_or (compareIdentifiers (Numeric (major a)) (Numeric (major b)))
       (js_or (compareIdentifiers (Numeric (minor a)) (Numeric (minor b)))
          (compareIdentifiers (Numeric (patch a)) (Numeric (patch b))))"

fun comparePre_loop :: "prerelease_id list \<Rightarrow> prerelease_id list \<Rightarrow> int" where
  "comparePre_loop [] [] = 0"
| "comparePre_loop (a # as) [] = 1"
| "comparePre_loop [] (b # bs) = - 1"
| "comparePre_loop (a # as) (b # bs) =
     (if a = b then comparePre_loop as bs else compareIdentifiers a b)"

definition comparePre :: "SemVer \<Rightarrow> SemVer \<Rightarrow> int" where
  "comparePre a b =
     (if prerelease a \<noteq> [] \<and> prerelease b = [] then - 1
      else if prerelease a = [] \<and> prerelease b \<noteq> [] then 1
      else if prerelease a = [] \<and> prerelease b = [] then 0
      else comparePre_loop (prerelease a) (prerelease b))"

definition same_version :: "SemVer \<Rightarrow> SemVer \<Rightarrow> bool" where
  "same_version a b \<longleftrightarrow>
     major a = major b \<and> minor a = minor b \<and> patch a = patch b \<and>
     prerelease a = prerelease b"

definition compare :: "SemVer \<Rightarrow> SemVer \<Rightarrow> int" where
  "compare a b =
     (if same_version a b then 0 else js_or (compareMain a b) (comparePre a b))"

definition Semver_gt :: "SemVer \<Rightarrow> SemVer \<Rightarrow> bool" where
  "Semver_gt a b \<longleftrightarrow> compare a b > 0"

definition Semver_lt :: "SemVer \<Rightarrow> SemVer \<Rightarrow> bool" where
  "Semver_lt a b \<longleftrightarrow> compare a b < 0"

definition Semver_gte :: "SemVer \<Rightarrow> SemVer \<Rightarrow> bool" where
  "Semver_gte a b \<longleftrightarrow> compare a b \<ge> 0"

section \<open>The release resolver (SemverVersioning.js)\<close>

record ReleaseInfo =
  enabled :: bool
  mandatory :: bool
  downloadUrl :: string
  packageHash :: string

text \<open>
  A release history is a JavaScript object; \<^verbatim>\<open>Object.entries\<close> lists its
  properties in insertion order (a version string is no array index), so the history
  is the list of its entries.
\<close>

type_synonym ReleaseHistory = "(SemVer \<times> ReleaseInfo) list"

text \<open>
  \<^verbatim>\<open>Array.prototype.sort\<close> with a comparison function. The language fixes the
  result when the comparison function is consistent on the elements; it is then the
  stable order. The sort is modelled as the stable insertion sort that takes the
  elements from left to right and puts each one before the first element of the sorted
  prefix that it must precede (the comparison function is called with the new element
  first and answers a negative number). Where the comparison function is not
  consistent, the language leaves the order to the implementation, and the model is
  one implementation.
\<close>

fun insert_sorted :: "('a \<Rightarrow> 'a \<Rightarrow> int) \<Rightarrow> 'a \<Rightarrow> 'a list \<Rightarrow> 'a list" where
  "insert_sorted cmp x [] = [x]"
| "insert_sorted cmp x (y # ys) =
     (if cmp x y < 0 then x # y # ys else y # insert_sorted cmp x ys)"

fun sort_from :: "('a \<Rightarrow> 'a \<Rightarrow> int) \<Rightarrow> 'a list \<Rightarrow> 'a list \<Rightarrow> 'a list" where
  "sort_from cmp acc [] = acc"
| "sort_from cmp acc (x # xs) = sort_from cmp (insert_sorted cmp x acc) xs"

definition Array_sort :: "('a \<Rightarrow> 'a \<Rightarrow> int) \<Rightarrow> 'a list \<Rightarrow> 'a list" where
  "Array_sort cmp xs = sort_from cmp [] xs"

text \<open>The comparison function both resolver functions pass to the sort:
  \<^verbatim>\<open>([v1], [v2]) => (Semver.gt(v1, v2) ? -1 : 1)\<close>. It never answers 0.\<close>

definition newest_first :: "SemVer \<times> ReleaseInfo \<Rightarrow> SemVer \<times> ReleaseInfo \<Rightarrow> int" where
  "newest_first r1 r2 = (if Semver_gt (fst r1) (fst r2) then - 1 else 1)"

datatype resolver_error = NoLatestRelease

definition findLatestRelease :: "ReleaseHistory \<Rightarrow> resolver_error + (SemVer \<times> ReleaseInfo)" where
  "findLatestRelease releaseHistory =
     (case Array_sort newest_first (filter (\<lambda>(v, bundle). enabled bundle) releaseHistory) of
        [] \<Rightarrow> Inl NoLatestRelease
      | latestReleaseInfo # rest \<Rightarrow> Inr latestReleaseInfo)"

definition checkIsMandatory :: "SemVer \<Rightarrow> ReleaseHistory \<Rightarrow> bool" where
  "checkIsMandatory runtimeVersion releaseHistory =
     (case filter (\<lambda>(v, bundle). mandatory bundle)
             (Array_sort newest_first (filter (\<lambda>(v, bundle). enabled bundle) releaseHistory)) of
        [] \<Rightarrow> False
      | (latestMandatoryVersion, bundle) # rest \<Rightarrow> Semver_gt latestMandatoryVersion runtimeVersion)"

definition shouldRollback :: "SemVer \<Rightarrow> SemVer \<Rightarrow> bool" where
  "shouldRollback runtimeVersion latestReleaseVersion \<longleftrightarrow>
     Semver_lt latestReleaseVersion runtimeVersion"

text \<open>The version \<^verbatim>\<open>x.y.z\<close> with no pre-release and no build identifiers, and a
  release entry with the two flags the resolver reads (the test suite's
  \<^verbatim>\<open>MOCK_INFOS\<close> for the rest).\<close>

definition version :: "nat \<Rightarrow> nat \<Rightarrow> nat \<Rightarrow> SemVer" where
  "version x y z = \<lparr>major = x, minor = y, patch = z, prerelease = [], build = []\<rparr>"

definition release :: "bool \<Rightarrow> bool \<Rightarrow> ReleaseInfo" where
  "release on must =
     \<lparr>enabled = on, mandatory = must, downloadUrl = [], packageHash = []\<rparr>"

section \<open>JavaScript values\<close>

text \<open>
  Option values reach the client as untyped JavaScript values, and the code tests them
  with truthiness and \<^verbatim>\<open>typeof\<close>. A number is the value of a finite double (NaN
  and the infinities have no representation); comparing two numbers is exact. An object
  is the list of its own properties; reading a property finds the first entry of that
  name.
\<close>

datatype jsval =
  JUndefined | JNull | JBool bool | JNum real | JStr string | JFunction
  | JObject "(string \<times> jsval) list"

fun truthy :: "jsval \<Rightarrow> bool" where
  "truthy JUndefined = False"
| "truthy JNull = False"
| "truthy (JBool b) = b"
| "truthy (JNum n) = (n \<noteq> 0)"
| "truthy (JStr s) = (s \<noteq> [])"
| "truthy JFunction = True"
| "truthy (JObject ps) = True"

fun typeof :: "jsval \<Rightarrow> string" where
  "typeof JUndefined = ''undefined''"
| "typeof JNull = ''object''"
| "typeof (JBool b) = ''boolean''"
| "typeof (JNum n) = ''number''"
| "typeof (JStr s) = ''string''"
| "typeof JFunction = ''function''"
| "typeof (JObject ps) = ''object''"

text \<open>
  The numbers are doubles, and an arithmetic operation yields the double nearest to the
  exact result, a tie going to the even significand. \<open>to_double\<close> is that rounding:
  \<open>binade\<close> finds the power of two at or below the magnitude (the argument of type
  \<open>nat\<close> bounds the search, and is ample for the range of the doubles), the spacing
  of the doubles there is that power divided by \<open>2 ^ 52\<close>, but not less than the
  spacing of the subnormal numbers, and the exact result is rounded to a multiple of
  the spacing. The operations of the code stay far from the overflow to infinity (one
  operand is a time in milliseconds), which is left out.
\<close>

definition round_half_even :: "real \<Rightarrow> int" where
  "round_half_even x =
     (let f = \<lfloor>x\<rfloor>; d = x - of_int f in
      if d < 1 / 2 then f else if 1 / 2 < d then f + 1 else if even f then f else f + 1)"

fun binade :: "nat \<Rightarrow> int \<Rightarrow> real \<Rightarrow> int" where
  "binade 0 e a = e"
| "binade (Suc k) e a =
     (if a < 2 powi e then binade k (e - 1) a
      else if 2 powi (e + 1) \<le> a then binade k (e + 1) a else e)"

definition to_double :: "real \<Rightarrow> real" where
  "to_double x =
     (if x = 0 then 0
      else let e = max (binade 2200 0 \<bar>x\<bar>) (- 1022); spacing = 2 powi (e - 52)
           in of_int (round_half_even (x / spacing)) * spacing)"

definition double_minus :: "real \<Rightarrow> real \<Rightarrow> real" where
  "double_minus a b = to_double (a - b)"

definition double_divide :: "real \<Rightarrow> real \<Rightarrow> real" where
  "double_divide a b = to_double (a / b)"

type_synonym properties = "(string \<times> jsval) list"

definition get_property :: "properties \<Rightarrow> string \<Rightarrow> jsval" where
  "get_property ps name = (case map_of ps name of None \<Rightarrow> JUndefined | Some v \<Rightarrow> v)"

fun own_properties :: "jsval \<Rightarrow> properties" where
  "own_properties (JObject ps) = ps"
| "own_properties v = []"

text \<open>The object literal \<^verbatim>\<open>{ ...a, ...b }\<close>: a property of \<open>b\<close> overrides the
  property of \<open>a\<close> of the same name.\<close>

definition spread :: "properties \<Rightarrow> properties \<Rightarrow> properties" where
  "spread a b = b @ a"

section \<open>The rollback retry policy (CodePush.js)\<close>

text \<open>The result of an update check, and the remote package \<^verbatim>\<open>checkForUpdate\<close>
  makes of it. A field the object may lack is an option.\<close>

record Update =
  updateAppVersion :: bool
  deploymentKey :: "string option"
  description :: "string option"
  label :: "string option"
  appVersion :: "string option"
  isMandatory :: bool
  packageHash :: "string option"
  packageSize :: "nat option"
  downloadUrl :: "string option"

record RemotePackage = Update +
  failedInstall :: bool

datatype InstallMode = IMMEDIATE | ON_NEXT_RESTART | ON_NEXT_RESUME | ON_NEXT_SUSPEND

record SyncOptions =
  deploymentKey :: "string option"
  ignoreFailedUpdates :: bool
  rollbackRetryOptions :: jsval
  installMode :: InstallMode
  mandatoryInstallMode :: InstallMode
  minimumBackgroundDuration :: real
  updateDialog :: jsval

text \<open>The record the native side keeps of the latest rollback; the time is in
  milliseconds, as \<^verbatim>\<open>Date.now()\<close> is.\<close>

record RollbackInfo =
  time :: real
  count :: int
  packageHash :: string

definition DEFAULT_ROLLBACK_RETRY_OPTIONS :: properties where
  "DEFAULT_ROLLBACK_RETRY_OPTIONS = [(''delayInHours'', JNum 24), (''maxRetryAttempts'', JNum 1)]"

text \<open>A function that logs returns the lines it logged beside its result.\<close>

definition validateLatestRollbackInfo :: "RollbackInfo option \<Rightarrow> string option \<Rightarrow> bool" where
  "validateLatestRollbackInfo latestRollbackInfo hash =
     (case latestRollbackInfo of
        None \<Rightarrow> False
      | Some info \<Rightarrow>
          time info \<noteq> 0 \<and> count info \<noteq> 0 \<and> RollbackInfo.packageHash info \<noteq> [] \<and>
          Some (RollbackInfo.packageHash info) = hash)"

definition validateRollbackRetryOptions :: "properties \<Rightarrow> bool \<times> string list" where
  "validateRollbackRetryOptions options =
     (if typeof (get_property options ''delayInHours'') \<noteq> ''number''
      then (False, [''The 'delayInHours' rollback retry parameter must be a number.''])
      else if typeof (get_property options ''maxRetryAttempts'') \<noteq> ''number''
      then (False, [''The 'maxRetryAttempts' rollback retry parameter must be a number.''])
      else (case get_property options ''maxRetryAttempts'' of
              JNum maxRetryAttempts \<Rightarrow>
                if maxRetryAttempts < 1
                then (False, [''The 'maxRetryAttempts' rollback retry parameter cannot be less then 1.''])
                else (True, [])
            | other \<Rightarrow> (True, [])))"

text \<open>The policy the code validates: the defaults for a truthy value that is no
  object, and otherwise the configured object's properties over the defaults.\<close>

definition effective_retry_options :: "jsval \<Rightarrow> properties" where
  "effective_retry_options configured =
     (if typeof configured \<noteq> ''object'' then DEFAULT_ROLLBACK_RETRY_OPTIONS
      else spread DEFAULT_ROLLBACK_RETRY_OPTIONS (own_properties configured))"

text \<open>
  \<^verbatim>\<open>shouldUpdateBeIgnored(remotePackage, syncOptions)\<close>. Its two reads of the
  environment are arguments: what \<^verbatim>\<open>NativeCodePush.getLatestRollbackInfo()\<close> resolves
  to, and \<^verbatim>\<open>Date.now()\<close>. The case of the two numbers is the destructuring of the
  validated policy; no other case passes the validation.
\<close>

definition shouldUpdateBeIgnored ::
  "RemotePackage option \<Rightarrow> SyncOptions \<Rightarrow> RollbackInfo option \<Rightarrow> real \<Rightarrow> bool \<times> string list" where
  "shouldUpdateBeIgnored remotePackage syncOptions latestRollbackInfo now =
     (let isFailedPackage = (case remotePackage of None \<Rightarrow> False | Some rp \<Rightarrow> failedInstall rp) in
      if \<not> isFailedPackage \<or> \<not> ignoreFailedUpdates syncOptions then (False, [])
      else if \<not> truthy (rollbackRetryOptions syncOptions) then (True, [])
      else
        let options = effective_retry_options (rollbackRetryOptions syncOptions);
            (valid, warnings) = validateRollbackRetryOptions options
        in
        if \<not> valid then (True, warnings)
        else if \<not> validateLatestRollbackInfo latestRollbackInfo
                  (case remotePackage of None \<Rightarrow> None | Some rp \<Rightarrow> Update.packageHash rp)
        then (True, warnings @ [''The latest rollback info is not valid.''])
        else
          (case (latestRollbackInfo, get_property options ''delayInHours'',
                 get_property options ''maxRetryAttempts'') of
             (Some info, JNum delayInHours, JNum maxRetryAttempts) \<Rightarrow>
               let hoursSinceLatestRollback =
                     double_divide (double_minus now (time info)) (1000 * 60 * 60) in
               if hoursSinceLatestRollback \<ge> delayInHours \<and> maxRetryAttempts \<ge> of_int (count info)
               then (False, warnings @ [''Previous rollback should be ignored due to rollback retry options.''])
               else (True, warnings)
           | other \<Rightarrow> (True, warnings)))"

text \<open>The options \<^verbatim>\<open>syncInternal\<close> starts from, before the caller's options
  override them.\<close>

definition default_sync_options :: SyncOptions where
  "default_sync_options =
     \<lparr>deploymentKey = None, ignoreFailedUpdates = True, rollbackRetryOptions = JNull,
      installMode = ON_NEXT_RESTART, mandatoryInstallMode = IMMEDIATE,
      minimumBackgroundDuration = 0, updateDialog = JNull\<rparr>"

text \<open>A remote package of the given hash and failure flag, for concrete cases.\<close>

definition package_of :: "string \<Rightarrow> bool \<Rightarrow> RemotePackage" where
  "package_of hash failed =
     \<lparr>updateAppVersion = False, deploymentKey = Some ''key'', description = Some [],
      label = Some ''v2'', appVersion = Some ''1.0.0'', isMandatory = False,
      packageHash = Some hash, packageSize = Some 10, downloadUrl = Some ''https://host/bundle'',
      failedInstall = failed\<rparr>"

section \<open>The configuration object, the update check and the status report (CodePush.js)\<close>

record Configuration =
  deploymentKey :: "string option"
  appVersion :: string
  packageHash :: "string option"
  clientUniqueId :: string
  ignoreAppVersion :: bool

record LocalPackage =
  appVersion :: string
  packageHash :: string
  label :: string
  isMandatory :: bool
  isPending :: bool
  isFirstRun :: bool
  failedInstall :: bool
  deploymentKey :: "string option"
  isDebugOnly :: bool

record QueryPackage =
  appVersion :: "string option"
  packageHash :: "string option"
  label :: "string option"

record UpdateCheckRequest =
  deployment_key :: "string option"
  app_version :: "string option"
  package_hash :: "string option"
  is_companion :: bool
  label :: "string option"
  client_unique_id :: string

record UpdateInfo =
  update_app_version :: bool
  is_available :: bool
  target_binary_range :: "string option"
  description :: "string option"
  label :: "string option"
  is_mandatory :: "bool option"
  package_hash :: "string option"
  package_size :: "nat option"
  download_url :: "string option"

record ReportedPackage =
  label :: "string option"
  packageHash :: "string option"
  deploymentKey :: "string option"

record StatusReport =
  appVersion :: "string option"
  package :: "ReportedPackage option"
  status :: "string option"
  previousLabelOrAppVersion :: "string option"
  previousDeploymentKey :: "string option"

text \<open>
  What a call does to the world beside its result, in the order in which it happens:
  lines logged (the line of a failed report carries the report, whose JSON text the
  code appends), the mismatch callback called, the calls of the native module that
  persist something, a deployment report sent by the acquisition SDK (with the
  deployment key of the configuration the SDK was created from), and the resume
  listeners added and removed.
\<close>

datatype effect =
  Logged string
  | LoggedReportStatusFailed StatusReport
  | BinaryVersionMismatchCalled Update
  | SetLatestRollbackInfo "string option"
  | ReportStatusDeploy "string option" "ReportedPackage option" "string option" "string option" "string option"
  | RecordStatusReported StatusReport
  | SaveStatusReportForRetry StatusReport
  | ResumeListenerAdded nat
  | ResumeListenerRemoved nat

text \<open>
  The state of the module. Configuration objects live in a store, so that two holders
  of one object see each other's assignments: \<open>objects\<close> maps a reference to the
  object's fields, references below \<open>next_object\<close> are in use.
  \<open>getConfiguration_config\<close> is the variable \<^verbatim>\<open>config\<close> in the closure of
  \<^verbatim>\<open>getConfiguration\<close>, \<open>testConfig\<close> the module's variable of that name, and
  \<open>NativeCodePush_getConfiguration\<close> what the native call resolves to.
\<close>

record Module =
  objects :: "nat \<Rightarrow> Configuration"
  next_object :: nat
  getConfiguration_config :: "nat option"
  testConfig :: "nat option"
  NativeCodePush_getConfiguration :: Configuration
  listeners_added :: nat
  effects :: "effect list"

text \<open>What the calls read from outside the module: the native side, the platform, the
  process-wide options and the acquisition SDK's answer. A rejected promise is an
  \<open>Inl\<close> with the error's message.\<close>

record Environment =
  getCurrentPackage :: "LocalPackage option"
  Platform_OS :: string
  updateChecker :: "(UpdateCheckRequest \<Rightarrow> string + UpdateInfo option) option"
  bundleHost :: "string option"
  queryUpdateWithCurrentPackage :: "Configuration \<Rightarrow> QueryPackage \<Rightarrow> string + Update option"
  isFailedUpdate :: "string option \<Rightarrow> bool"
  getNewStatusReport :: "StatusReport option"

definition truthy_string :: "string option \<Rightarrow> bool" where
  "truthy_string v = (case v of None \<Rightarrow> False | Some s \<Rightarrow> s \<noteq> [])"

text \<open>\<^verbatim>\<open>a ?? b\<close> and \<^verbatim>\<open>a || b\<close> on optional strings.\<close>

definition nullish :: "'a option \<Rightarrow> 'a \<Rightarrow> 'a" where
  "nullish v d = (case v of None \<Rightarrow> d | Some x \<Rightarrow> x)"

definition string_or :: "string option \<Rightarrow> string option \<Rightarrow> string option" where
  "string_or a b = (if truthy_string a then a else b)"

definition log_line :: "string \<Rightarrow> Module \<Rightarrow> Module" where
  "log_line line m = m\<lparr>effects := effects m @ [Logged line]\<rparr>"

definition emit :: "effect \<Rightarrow> Module \<Rightarrow> Module" where
  "emit e m = m\<lparr>effects := effects m @ [e]\<rparr>"

definition new_object :: "Configuration \<Rightarrow> Module \<Rightarrow> nat \<times> Module" where
  "new_object obj m =
     (next_object m,
      m\<lparr>objects := (objects m)(next_object m := obj), next_object := Suc (next_object m)\<rparr>)"

text \<open>
  The memoized \<^verbatim>\<open>getConfiguration\<close> is asynchronous. A call first tests the cached
  object and the test configuration and returns a reference to the one it finds; else
  it calls the native module and waits (\<open>getConfiguration_begin\<close> answers
  \<open>None\<close>). Only when the native call has resolved does the call assign the object
  it received to the cache and return it (\<open>getConfiguration_resolved\<close>); every
  native call yields an object of its own. Other code can run between the two steps,
  a second call of \<^verbatim>\<open>getConfiguration\<close> among it, which finds the cache still
  empty.
\<close>

definition getConfiguration_begin :: "Module \<Rightarrow> nat option" where
  "getConfiguration_begin m =
     (case getConfiguration_config m of
        Some r \<Rightarrow> Some r
      | None \<Rightarrow> testConfig m)"

definition getConfiguration_resolved :: "Module \<Rightarrow> nat \<times> Module" where
  "getConfiguration_resolved m =
     (let (r, m') = new_object (NativeCodePush_getConfiguration m) m
      in (r, m'\<lparr>getConfiguration_config := Some r\<rparr>))"

text \<open>A call of \<^verbatim>\<open>getConfiguration\<close> during which nothing else runs: no other call
  is waiting for the native module at the same time.\<close>

definition getConfiguration :: "Module \<Rightarrow> nat \<times> Module" where
  "getConfiguration m =
     (case getConfiguration_begin m of
        Some r \<Rightarrow> (r, m)
      | None \<Rightarrow> getConfiguration_resolved m)"

text \<open>Lines 24 to 34 of \<^verbatim>\<open>checkForUpdate\<close>: the configuration the check works with.
  An explicit deployment key makes a new object, the spread of the native configuration
  with the key replaced.\<close>

definition check_configuration :: "string option \<Rightarrow> Module \<Rightarrow> nat \<times> nat \<times> Module" where
  "check_configuration key m =
     (let (nativeConfig, m1) = getConfiguration m in
      if truthy_string key
      then let (r, m2) = new_object ((objects m1 nativeConfig)\<lparr>Configuration.deploymentKey := key\<rparr>) m1
           in (nativeConfig, r, m2)
      else (nativeConfig, nativeConfig, m1))"

definition query_package :: "Environment \<Rightarrow> Configuration \<Rightarrow> QueryPackage" where
  "query_package env cfg =
     (case getCurrentPackage env of
        Some localPackage \<Rightarrow>
          \<lparr>QueryPackage.appVersion = Some (LocalPackage.appVersion localPackage),
           packageHash = Some (LocalPackage.packageHash localPackage),
           label = Some (LocalPackage.label localPackage)\<rparr>
      | None \<Rightarrow>
          \<lparr>QueryPackage.appVersion = Some (Configuration.appVersion cfg),
           packageHash =
             (if Platform_OS env = ''ios'' \<and> truthy_string (Configuration.packageHash cfg)
              then Configuration.packageHash cfg else None),
           label = None\<rparr>)"

text \<open>Lines 86 to 118: what the check makes of the answer of a custom update checker.\<close>

definition update_of_info :: "Configuration \<Rightarrow> UpdateInfo option \<Rightarrow> Update option" where
  "update_of_info cfg response =
     (case response of
        None \<Rightarrow> None
      | Some updateInfo \<Rightarrow>
          if update_app_version updateInfo
          then Some \<lparr>updateAppVersion = True, deploymentKey = None, description = None,
                 label = None, appVersion = target_binary_range updateInfo, isMandatory = False,
                 packageHash = None, packageSize = None, downloadUrl = None\<rparr>
          else if \<not> is_available updateInfo then None
          else Some \<lparr>updateAppVersion = False,
                 deploymentKey = Configuration.deploymentKey cfg,
                 description = Some (nullish (UpdateInfo.description updateInfo) []),
                 label = Some (nullish (UpdateInfo.label updateInfo) []),
                 appVersion = Some (nullish (target_binary_range updateInfo) []),
                 isMandatory = nullish (is_mandatory updateInfo) False,
                 packageHash = Some (nullish (UpdateInfo.package_hash updateInfo) []),
                 packageSize = Some (nullish (package_size updateInfo) 0),
                 downloadUrl = Some (nullish (download_url updateInfo) [])\<rparr>)"

text \<open>Lines 62 to 120: the update, from the custom checker when one is set and from
  the acquisition SDK otherwise.\<close>

definition resolve_update :: "Environment \<Rightarrow> Configuration \<Rightarrow> string + Update option" where
  "resolve_update env cfg =
     (let queryPackage = query_package env cfg in
      case updateChecker env of
        Some checker \<Rightarrow>
          (case checker
                  \<lparr>deployment_key = Configuration.deploymentKey cfg,
                   app_version = QueryPackage.appVersion queryPackage,
                   package_hash = QueryPackage.packageHash queryPackage,
                   is_companion = ignoreAppVersion cfg,
                   label = QueryPackage.label queryPackage,
                   client_unique_id = clientUniqueId cfg\<rparr> of
             Inl err \<Rightarrow> Inl err
           | Inr response \<Rightarrow> Inr (update_of_info cfg response))
      | None \<Rightarrow> queryUpdateWithCurrentPackage env cfg queryPackage)"

text \<open>\<^verbatim>\<open>url.split("/").pop()\<close>: what follows the last slash.\<close>

definition file_name :: "string \<Rightarrow> string" where
  "file_name url = rev (takeWhile (\<lambda>c. c \<noteq> CHR ''/'') (rev url))"

text \<open>Lines 122 to 129: with a bundle host set, the download URL becomes the host
  followed by the file name.\<close>

definition with_bundle_host :: "Environment \<Rightarrow> Update \<Rightarrow> Update" where
  "with_bundle_host env u =
     (case (bundleHost env, downloadUrl u) of
        (Some host, Some url) \<Rightarrow>
          if host \<noteq> [] \<and> file_name url \<noteq> [] then u\<lparr>downloadUrl := Some (host @ file_name url)\<rparr>
          else u
      | other \<Rightarrow> u)"

text \<open>The mismatch callback as the caller passed it: nothing, a value that is no
  function, or a function.\<close>

datatype callback = NoCallback | NotAFunction | Function

text \<open>\<^verbatim>\<open>checkForUpdate(deploymentKey, handleBinaryVersionMismatchCallback)\<close>. The
  result is the rejection, null (\<open>None\<close>) or the remote package.\<close>

definition checkForUpdate ::
  "string option \<Rightarrow> callback \<Rightarrow> Environment \<Rightarrow> Module \<Rightarrow> (string + RemotePackage option) \<times> Module" where
  "checkForUpdate key handleBinaryVersionMismatchCallback env m =
     (let (nativeConfig, config, m1) = check_configuration key m;
          localPackage = getCurrentPackage env
      in
      case resolve_update env (objects m1 config) of
        Inl err \<Rightarrow> (Inl err, m1)
      | Inr None \<Rightarrow> (Inr None, m1)
      | Inr (Some resolved) \<Rightarrow>
          let update = with_bundle_host env resolved in
          if updateAppVersion update \<or>
             (case localPackage of None \<Rightarrow> False
              | Some lp \<Rightarrow> Update.packageHash update = Some (LocalPackage.packageHash lp)) \<or>
             ((case localPackage of None \<Rightarrow> True | Some lp \<Rightarrow> isDebugOnly lp) \<and>
              Configuration.packageHash (objects m1 config) = Update.packageHash update)
          then
            if updateAppVersion update
            then
              let m2 = log_line ''An update is available but it is not targeting the binary version of your app.'' m1
              in (Inr None,
                  if handleBinaryVersionMismatchCallback = Function
                  then emit (BinaryVersionMismatchCalled update) m2 else m2)
            else (Inr None, m1)
          else
            (Inr (Some
               \<lparr>updateAppVersion = updateAppVersion update,
                deploymentKey = string_or key (Configuration.deploymentKey (objects m1 nativeConfig)),
                description = Update.description update,
                label = Update.label update,
                appVersion = Update.appVersion update,
                isMandatory = Update.isMandatory update,
                packageHash = Update.packageHash update,
                packageSize = packageSize update,
                downloadUrl = downloadUrl update,
                RemotePackage.failedInstall = isFailedUpdate env (Update.packageHash update)\<rparr>),
             m1))"

text \<open>
  \<^verbatim>\<open>tryReportStatus(statusReport, retryOnAppResume)\<close>. The listener is the
  number of a resume listener or nothing; \<open>delivered\<close> says whether the promise of
  \<^verbatim>\<open>sdk.reportStatusDeploy\<close> resolves. Every error of the \<^verbatim>\<open>try\<close> block is caught
  by the one \<^verbatim>\<open>catch\<close>: the missing deployment key, the report without a package
  (reading its label throws), the rejected delivery. The calls of the native module
  that persist something are taken to succeed. The function starts by waiting for
  \<^verbatim>\<open>getConfiguration\<close>: \<open>tryReportStatus_resumed\<close> is what it does from line 295
  on with the reference that call returned, and \<open>tryReportStatus\<close> is the whole call
  when nothing else runs while it waits for the configuration.
\<close>

definition report_failed :: "StatusReport \<Rightarrow> nat option \<Rightarrow> Module \<Rightarrow> Module" where
  "report_failed statusReport retryOnAppResume m =
     (let m1 = emit (SaveStatusReportForRetry statusReport)
                 (emit (LoggedReportStatusFailed statusReport) m)
      in case retryOnAppResume of
           None \<Rightarrow> (emit (ResumeListenerAdded (listeners_added m1)) m1)
                      \<lparr>listeners_added := Suc (listeners_added m1)\<rparr>
         | Some listener \<Rightarrow> m1)"

definition report_succeeded :: "StatusReport \<Rightarrow> nat option \<Rightarrow> Module \<Rightarrow> Module" where
  "report_succeeded statusReport retryOnAppResume m =
     (let m1 = emit (RecordStatusReported statusReport) m
      in case retryOnAppResume of
           None \<Rightarrow> m1
         | Some listener \<Rightarrow> emit (ResumeListenerRemoved listener) m1)"

definition tryReportStatus_resumed ::
  "nat \<Rightarrow> StatusReport \<Rightarrow> nat option \<Rightarrow> bool \<Rightarrow> Module \<Rightarrow> Module" where
  "tryReportStatus_resumed config statusReport retryOnAppResume delivered m1 =
     (let previousKey = string_or (previousDeploymentKey statusReport)
                          (Configuration.deploymentKey (objects m1 config))
      in
      if truthy_string (StatusReport.appVersion statusReport)
      then
        let m2 = log_line (''Reporting binary update ('' @ nullish (StatusReport.appVersion statusReport) [] @ '')'') m1 in
        if \<not> truthy_string (Configuration.deploymentKey (objects m2 config))
        then report_failed statusReport retryOnAppResume m2
        else if delivered
        then report_succeeded statusReport retryOnAppResume
               (emit (ReportStatusDeploy (Configuration.deploymentKey (objects m2 config)) None None
                        (previousLabelOrAppVersion statusReport) previousKey) m2)
        else report_failed statusReport retryOnAppResume m2
      else
        (case package statusReport of
           None \<Rightarrow> report_failed statusReport retryOnAppResume m1
         | Some reported \<Rightarrow>
             let m2 =
                   (if status statusReport = Some ''DeploymentSucceeded''
                    then log_line (''Reporting CodePush update success ('' @ nullish (ReportedPackage.label reported) ''undefined'' @ '')'') m1
                    else emit (SetLatestRollbackInfo (ReportedPackage.packageHash reported))
                           (log_line (''Reporting CodePush update rollback ('' @ nullish (ReportedPackage.label reported) ''undefined'' @ '')'') m1));
                 m3 = m2\<lparr>objects := (objects m2)
                         (config := (objects m2 config)
                            \<lparr>Configuration.deploymentKey := ReportedPackage.deploymentKey reported\<rparr>)\<rparr>
             in
             if delivered
             then report_succeeded statusReport retryOnAppResume
                    (emit (ReportStatusDeploy (Configuration.deploymentKey (objects m3 config))
                             (Some reported) (status statusReport)
                             (previousLabelOrAppVersion statusReport) previousKey) m3)
             else report_failed statusReport retryOnAppResume m3))"

definition tryReportStatus :: "StatusReport \<Rightarrow> nat option \<Rightarrow> bool \<Rightarrow> Module \<Rightarrow> Module" where
  "tryReportStatus statusReport retryOnAppResume delivered m =
     (let (config, m1) = getConfiguration m
      in tryReportStatus_resumed config statusReport retryOnAppResume delivered m1)"

text \<open>The listener \<^verbatim>\<open>tryReportStatus\<close> registers, called with the new state of the
  application: on \<^verbatim>\<open>active\<close> it retries the pending report, or removes itself when
  none is pending.\<close>

definition resumeListener :: "nat \<Rightarrow> string \<Rightarrow> Environment \<Rightarrow> bool \<Rightarrow> Module \<Rightarrow> Module" where
  "resumeListener listener newState env delivered m =
     (if newState \<noteq> ''active'' then m
      else case getNewStatusReport env of
             Some refreshedStatusReport \<Rightarrow>
               tryReportStatus refreshedStatusReport (Some listener) delivered m
           | None \<Rightarrow> emit (ResumeListenerRemoved listener) m)"

text \<open>A module that has not read its configuration yet, on a native side with the
  given configuration.\<close>

definition fresh_module :: "Configuration \<Rightarrow> Module" where
  "fresh_module native =
     \<lparr>objects = (\<lambda>r. native), next_object = 0, getConfiguration_config = None,
      testConfig = None, NativeCodePush_getConfiguration = native, listeners_added = 0,
      effects = []\<rparr>"

text \<open>The references the module holds are in use.\<close>

definition well_formed :: "Module \<Rightarrow> bool" where
  "well_formed m \<longleftrightarrow>
     (case getConfiguration_config m of None \<Rightarrow> True | Some r \<Rightarrow> r < next_object m) \<and>
     (case testConfig m of None \<Rightarrow> True | Some r \<Rightarrow> r < next_object m)"

text \<open>Concrete values for the cases below: a native configuration, an environment in
  which the acquisition SDK answers with the given update (no custom checker, no
  bundle host, no failed update), an update of a given hash, and the answer that a
  newer binary is needed.\<close>

definition sample_configuration :: Configuration where
  "sample_configuration =
     \<lparr>Configuration.deploymentKey = Some ''native-key'', appVersion = ''1.0.0'',
      packageHash = Some ''binary-hash'', clientUniqueId = ''device'', ignoreAppVersion = False\<rparr>"

definition sdk_environment :: "LocalPackage option \<Rightarrow> Update option \<Rightarrow> Environment" where
  "sdk_environment localPackage update =
     \<lparr>getCurrentPackage = localPackage, Platform_OS = ''android'', updateChecker = None,
      bundleHost = None, queryUpdateWithCurrentPackage = (\<lambda>cfg q. Inr update),
      isFailedUpdate = (\<lambda>hash. False), getNewStatusReport = None\<rparr>"

definition update_of :: "string \<Rightarrow> Update" where
  "update_of hash =
     \<lparr>updateAppVersion = False, deploymentKey = Some ''native-key'', description = Some [],
      label = Some ''v2'', appVersion = Some ''1.0.0'', isMandatory = False,
      packageHash = Some hash, packageSize = Some 10, downloadUrl = Some ''https://host/bundle''\<rparr>"


text \<open>Two status reports: of a CodePush update that was deployed from the deployment
  \<^verbatim>\<open>staging-key\<close>, and of a binary update to version 1.0.0.\<close>

definition codepush_report :: StatusReport where
  "codepush_report =
     \<lparr>StatusReport.appVersion = None,
      package = Some \<lparr>ReportedPackage.label = Some ''v5'', packageHash = Some ''h5'',
                      deploymentKey = Some ''staging-key''\<rparr>,
      status = Some ''DeploymentSucceeded'', previousLabelOrAppVersion = Some ''v4'',
      previousDeploymentKey = None\<rparr>"

definition binary_report :: StatusReport where
  "binary_report =
     \<lparr>StatusReport.appVersion = Some ''1.0.0'', package = None, status = None,
      previousLabelOrAppVersion = None, previousDeploymentKey = None\<rparr>"

text \<open>
  The start of the application with a status report pending, on a module that has not
  read its configuration yet. \<^verbatim>\<open>notifyApplicationReadyInternal\<close> calls
  \<^verbatim>\<open>tryReportStatus\<close> without waiting for it (line 288), and \<^verbatim>\<open>syncInternal\<close>
  goes on to \<^verbatim>\<open>checkForUpdate\<close> (line 583). Both call \<^verbatim>\<open>getConfiguration\<close>
  before the native module has answered either, so both find the cache empty and both
  call the native module. The first answer fills the cache and resumes
  \<^verbatim>\<open>tryReportStatus\<close>; the second answer, the one for \<^verbatim>\<open>checkForUpdate\<close>,
  fills the cache again.
\<close>

definition start_up_with_report :: "Configuration \<Rightarrow> StatusReport \<Rightarrow> Module" where
  "start_up_with_report native statusReport =
     (let m0 = fresh_module native;
          (config1, m1) = getConfiguration_resolved m0;
          m2 = tryReportStatus_resumed config1 statusReport None True m1;
          (config2, m3) = getConfiguration_resolved m2
      in m3)"

section \<open>The single-flight guard of sync (CodePush.js)\<close>

datatype SyncStatus =
  UP_TO_DATE | UPDATE_INSTALLED | UPDATE_IGNORED | UNKNOWN_ERROR | SYNC_IN_PROGRESS
  | CHECKING_FOR_UPDATE | AWAITING_USER_ACTION | DOWNLOADING_PACKAGE | INSTALLING_UPDATE

text \<open>How the promise of a run of \<^verbatim>\<open>syncInternal\<close> settles, and the promise a call
  of \<^verbatim>\<open>sync\<close> returns: \<^verbatim>\<open>Promise.resolve(status)\<close>, or the promise of the run it
  started. Runs are numbered in the order in which they start.\<close>

datatype settlement = Resolved SyncStatus | Rejected string

datatype sync_promise = Promise_resolve SyncStatus | syncPromise nat

text \<open>
  A run is asynchronous: it settles in a later turn of the event loop, and what it does
  until then is not part of the guard. \<^verbatim>\<open>sync\<close> registers
  \<^verbatim>\<open>syncPromise.then(setSyncCompleted).catch(setSyncCompleted)\<close> before it returns, so
  the first reaction of a run's promise is the one of \<^verbatim>\<open>then\<close>; the reaction of
  \<^verbatim>\<open>catch\<close> belongs to the promise that \<^verbatim>\<open>then\<close> returned. A caller that holds
  the returned promise can add reactions of its own; the one modelled calls
  \<^verbatim>\<open>sync\<close> again (as in \<^verbatim>\<open>sync().then(again, again)\<close>, or a call of
  \<^verbatim>\<open>sync\<close> that follows \<^verbatim>\<open>await sync()\<close>). When a promise settles, the jobs of
  its reactions join the job queue in the order in which the reactions were added, and
  the queue runs first in, first out.
\<close>

datatype job =
  Then_setSyncCompleted nat settlement
  | Catch_setSyncCompleted nat bool
  | Caller_calls_sync nat settlement

record SyncModule =
  syncInProgress :: bool
  runs :: nat
  unsettled :: "nat list"
  caller_reactions :: "nat list"
  jobs :: "job list"
  statusCallbackCalls :: "SyncStatus list"
  logged :: "string list"
  returned :: "sync_promise list"

definition module_loaded :: SyncModule where
  "module_loaded =
     \<lparr>syncInProgress = False, runs = 0, unsettled = [], caller_reactions = [], jobs = [],
      statusCallbackCalls = [], logged = [], returned = []\<rparr>"

text \<open>\<^verbatim>\<open>sync(options, syncStatusChangeCallback, ...)\<close>, lines 457 to 501. The argument
  says whether the status callback is a function. A call that is let through starts the
  next run.\<close>

definition sync :: "bool \<Rightarrow> SyncModule \<Rightarrow> sync_promise \<times> SyncModule" where
  "sync hasStatusCallback st =
     (if syncInProgress st
      then (Promise_resolve SYNC_IN_PROGRESS,
            if hasStatusCallback
            then st\<lparr>statusCallbackCalls := statusCallbackCalls st @ [SYNC_IN_PROGRESS]\<rparr>
            else st\<lparr>logged := logged st @ [''Sync already in progress.'']\<rparr>)
      else (syncPromise (runs st),
            st\<lparr>syncInProgress := True, runs := Suc (runs st),
               unsettled := unsettled st @ [runs st]\<rparr>))"

definition setSyncCompleted :: "SyncModule \<Rightarrow> SyncModule" where
  "setSyncCompleted st = st\<lparr>syncInProgress := False\<rparr>"

text \<open>The caller adds to the promise of run \<open>n\<close> a reaction that calls \<^verbatim>\<open>sync\<close>.\<close>

definition caller_then :: "nat \<Rightarrow> SyncModule \<Rightarrow> SyncModule" where
  "caller_then n st =
     (if n \<in> set (unsettled st) then st\<lparr>caller_reactions := caller_reactions st @ [n]\<rparr> else st)"

text \<open>The promise of run \<open>n\<close> settles: the jobs of its reactions join the queue, the
  one of \<^verbatim>\<open>then(setSyncCompleted)\<close> first.\<close>

definition settle :: "nat \<Rightarrow> settlement \<Rightarrow> SyncModule \<Rightarrow> SyncModule" where
  "settle n outcome st =
     (if n \<in> set (unsettled st)
      then st\<lparr>unsettled := removeAll n (unsettled st),
              caller_reactions := removeAll n (caller_reactions st),
              jobs := jobs st @ [Then_setSyncCompleted n outcome] @
                      map (\<lambda>r. Caller_calls_sync n outcome) (filter (\<lambda>r. r = n) (caller_reactions st))\<rparr>
      else st)"

text \<open>
  One job. \<^verbatim>\<open>then(setSyncCompleted)\<close> has no handler for a rejection: the rejection
  passes to the promise it returned, whose reaction is the one of
  \<^verbatim>\<open>catch(setSyncCompleted)\<close>; that one has no handler for a fulfilment.
\<close>

fun run_job :: "job \<Rightarrow> SyncModule \<Rightarrow> SyncModule" where
  "run_job (Then_setSyncCompleted n (Resolved v)) st =
     (setSyncCompleted st)\<lparr>jobs := jobs st @ [Catch_setSyncCompleted n False]\<rparr>"
| "run_job (Then_setSyncCompleted n (Rejected err)) st =
     st\<lparr>jobs := jobs st @ [Catch_setSyncCompleted n True]\<rparr>"
| "run_job (Catch_setSyncCompleted n rejected) st =
     (if rejected then setSyncCompleted st else st)"
| "run_job (Caller_calls_sync n outcome) st =
     (let (promise, st') = sync False st in st'\<lparr>returned := returned st' @ [promise]\<rparr>)"

definition run_next_job :: "SyncModule \<Rightarrow> SyncModule" where
  "run_next_job st =
     (case jobs st of [] \<Rightarrow> st | j # rest \<Rightarrow> run_job j (st\<lparr>jobs := rest\<rparr>))"

text \<open>What can happen to the module: a call of \<^verbatim>\<open>sync\<close>, a caller's reaction added
  to the promise of a run, the settling of a run, and the next job of the queue.\<close>

datatype event = Call_sync bool | Caller_then nat | Settle nat settlement | Next_job

fun step :: "SyncModule \<Rightarrow> event \<Rightarrow> SyncModule" where
  "step st (Call_sync hasStatusCallback) =
     (let (promise, st') = sync hasStatusCallback st in st'\<lparr>returned := returned st' @ [promise]\<rparr>)"
| "step st (Caller_then n) = caller_then n st"
| "step st (Settle n outcome) = settle n outcome st"
| "step st Next_job = run_next_job st"

definition after :: "event list \<Rightarrow> SyncModule" where
  "after events = foldl step module_loaded events"

text \<open>The jobs that will still clear the guard.\<close>

fun clears :: "job \<Rightarrow> bool" where
  "clears (Then_setSyncCompleted n outcome) = True"
| "clears (Catch_setSyncCompleted n rejected) = rejected"
| "clears (Caller_calls_sync n outcome) = False"

definition guard_accounts :: "SyncModule \<Rightarrow> bool" where
  "guard_accounts st \<longleftrightarrow>
     length (unsettled st) + length (filter clears (jobs st)) = (if syncInProgress st then 1 else 0)"

section \<open>Properties of the precedence order\<close>

lemma string_lt_irrefl: "\<not> string_lt s s"
  by (induction s) auto

lemma string_lt_total: "s \<noteq> t \<Longrightarrow> string_lt s t \<or> string_lt t s"
proof (induction s t rule: string_lt.induct)
  case (4 c s d t)
  show ?case
  proof (cases "(of_char c :: nat) = of_char d")
    case True
    then have "c = d" by simp
    with 4 True show ?thesis by auto
  next
    case False
    then show ?thesis by auto
  qed
qed auto

lemma string_lt_asym: "string_lt s t \<Longrightarrow> \<not> string_lt t s"
  by (induction s t rule: string_lt.induct) (auto split: if_splits)

lemma string_lt_trans: "string_lt s t \<Longrightarrow> string_lt t u \<Longrightarrow> string_lt s u"
proof (induction s t arbitrary: u rule: string_lt.induct)
  case (2 d t)
  then show ?case by (cases u) auto
next
  case (4 c s d t)
  then show ?case by (cases u) (auto split: if_splits)
qed auto

lemma compareIdentifiers_range: "compareIdentifiers a b \<in> {- 1, 0, 1}"
  by (cases a; cases b) auto

lemma compareIdentifiers_zero: "compareIdentifiers a b = 0 \<longleftrightarrow> a = b"
  by (cases a; cases b) auto

lemma compareIdentifiers_flip: "compareIdentifiers b a = - compareIdentifiers a b"
  by (cases a; cases b) (auto dest: string_lt_asym string_lt_total)

lemma compareIdentifiers_trans:
  "compareIdentifiers a b < 0 \<Longrightarrow> compareIdentifiers b c < 0 \<Longrightarrow> compareIdentifiers a c < 0"
  by (cases a; cases b; cases c)
    (auto split: if_splits dest: string_lt_trans string_lt_irrefl [THEN notE])

lemma comparePre_loop_range: "comparePre_loop xs ys \<in> {- 1, 0, 1}"
proof (induction xs ys rule: comparePre_loop.induct)
  case (4 a as b bs)
  then show ?case using compareIdentifiers_range [of a b] by auto
qed auto

lemma comparePre_loop_zero: "comparePre_loop xs ys = 0 \<longleftrightarrow> xs = ys"
  by (induction xs ys rule: comparePre_loop.induct) (auto simp: compareIdentifiers_zero)

lemma comparePre_loop_flip: "comparePre_loop ys xs = - comparePre_loop xs ys"
proof (induction xs ys rule: comparePre_loop.induct)
  case (4 a as b bs)
  then show ?case using compareIdentifiers_flip [of a b] by auto
qed auto

lemma comparePre_loop_trans:
  "comparePre_loop xs ys < 0 \<Longrightarrow> comparePre_loop ys zs < 0 \<Longrightarrow> comparePre_loop xs zs < 0"
proof (induction xs ys arbitrary: zs rule: comparePre_loop.induct)
  case (3 b bs)
  then show ?case by (cases zs) (auto split: if_splits)
next
  case (4 a as b bs)
  show ?case
  proof (cases zs)
    case Nil
    with 4 show ?thesis by simp
  next
    case (Cons c cs)
    show ?thesis
    proof (cases "a = b")
      case True
      with 4 Cons show ?thesis by (auto split: if_splits)
    next
      case ab: False
      show ?thesis
      proof (cases "b = c")
        case True
        with 4 Cons ab show ?thesis by (auto split: if_splits)
      next
        case bc: False
        from 4(2) ab have 1: "compareIdentifiers a b < 0" by simp
        from 4(3) Cons bc have 2: "compareIdentifiers b c < 0" by simp
        from 1 2 have 3: "compareIdentifiers a c < 0" by (rule compareIdentifiers_trans)
        then have "a \<noteq> c" using compareIdentifiers_zero [of a c] by auto
        with 3 Cons show ?thesis by simp
      qed
    qed
  qed
qed auto

lemma compareMain_neg:
  "compareMain a b < 0 \<longleftrightarrow>
     major a < major b \<or>
     (major a = major b \<and> (minor a < minor b \<or> (minor a = minor b \<and> patch a < patch b)))"
  by (auto simp: compareMain_def js_or_def)

lemma compareMain_zero:
  "compareMain a b = 0 \<longleftrightarrow> major a = major b \<and> minor a = minor b \<and> patch a = patch b"
  by (auto simp: compareMain_def js_or_def)

lemma compareMain_flip: "compareMain b a = - compareMain a b"
  by (auto simp: compareMain_def js_or_def)

lemma comparePre_neg:
  "comparePre a b < 0 \<longleftrightarrow>
     prerelease a \<noteq> [] \<and>
     (prerelease b = [] \<or> comparePre_loop (prerelease a) (prerelease b) < 0)"
  by (cases "prerelease a"; cases "prerelease b") (auto simp: comparePre_def)

lemma comparePre_zero: "comparePre a b = 0 \<longleftrightarrow> prerelease a = prerelease b"
  using comparePre_loop_zero [of "prerelease a" "prerelease b"]
  by (auto simp: comparePre_def)

lemma comparePre_flip: "comparePre b a = - comparePre a b"
  using comparePre_loop_flip [of "prerelease a" "prerelease b"]
  by (auto simp: comparePre_def)

lemma compare_neg:
  "compare a b < 0 \<longleftrightarrow> compareMain a b < 0 \<or> (compareMain a b = 0 \<and> comparePre a b < 0)"
  using compareMain_zero [of a b] comparePre_zero [of a b]
  by (auto simp: compare_def js_or_def same_version_def)

lemma compare_zero: "compare a b = 0 \<longleftrightarrow> same_version a b"
  using compareMain_zero [of a b] comparePre_zero [of a b]
  by (auto simp: compare_def js_or_def same_version_def)

lemma compare_flip: "compare b a = - compare a b"
  using compareMain_flip [of a b] comparePre_flip [of a b]
  by (auto simp: compare_def js_or_def same_version_def)

lemma compare_trans:
  assumes "compare a b < 0" and "compare b c < 0"
  shows "compare a c < 0"
proof -
  have pre: "comparePre a c < 0" if "comparePre a b < 0" "comparePre b c < 0"
    using that comparePre_loop_trans [of "prerelease a" "prerelease b" "prerelease c"]
    by (auto simp: comparePre_neg)
  from assms show ?thesis
    unfolding compare_neg
    using pre by (auto simp: compareMain_neg compareMain_zero)
qed

lemma Semver_gt_iff_lt: "Semver_gt a b \<longleftrightarrow> Semver_lt b a"
  using compare_flip [of a b] by (auto simp: Semver_gt_def Semver_lt_def)

lemma Semver_lt_irrefl: "\<not> Semver_lt a a"
  using compare_zero [of a a] by (simp add: Semver_lt_def same_version_def)

lemma Semver_lt_trans: "Semver_lt a b \<Longrightarrow> Semver_lt b c \<Longrightarrow> Semver_lt a c"
  unfolding Semver_lt_def by (rule compare_trans)

lemma Semver_gte_iff_not_lt: "Semver_gte a b \<longleftrightarrow> \<not> Semver_lt a b"
  by (auto simp: Semver_gte_def Semver_lt_def)

subsection \<open>The sort keeps the elements and puts a strictly greatest one first\<close>

lemma set_insert_sorted: "set (insert_sorted cmp x ys) = insert x (set ys)"
  by (induction ys) auto

lemma set_sort_from: "set (sort_from cmp acc xs) = set acc \<union> set xs"
  by (induction xs arbitrary: acc) (auto simp: set_insert_sorted)

lemma set_Array_sort: "set (Array_sort cmp xs) = set xs"
  by (simp add: Array_sort_def set_sort_from)

lemma Array_sort_Nil_iff: "Array_sort cmp xs = [] \<longleftrightarrow> xs = []"
  using set_Array_sort [of cmp xs] by (metis set_empty)

lemma hd_insert_sorted:
  "hd (insert_sorted cmp x ys) = (if ys = [] \<or> cmp x (hd ys) < 0 then x else hd ys)"
  by (cases ys) auto

lemma insert_sorted_not_Nil: "insert_sorted cmp x ys \<noteq> []"
  by (cases ys) auto

lemma sort_from_greatest_first:
  assumes "\<forall>y \<in> set acc \<union> set xs. y \<noteq> m \<longrightarrow> cmp m y < 0 \<and> \<not> cmp y m < 0"
    and "\<not> cmp m m < 0"
    and "(acc \<noteq> [] \<and> hd acc = m) \<or> m \<in> set xs"
  shows "sort_from cmp acc xs \<noteq> [] \<and> hd (sort_from cmp acc xs) = m"
  using assms
proof (induction xs arbitrary: acc)
  case Nil
  then show ?case by simp
next
  case (Cons x xs)
  let ?acc = "insert_sorted cmp x acc"
  have others: "\<forall>y \<in> set ?acc \<union> set xs. y \<noteq> m \<longrightarrow> cmp m y < 0 \<and> \<not> cmp y m < 0"
    using Cons.prems(1) by (auto simp: set_insert_sorted)
  have place: "(?acc \<noteq> [] \<and> hd ?acc = m) \<or> m \<in> set xs"
  proof (cases "acc \<noteq> [] \<and> hd acc = m")
    case True
    then have "\<not> cmp x (hd acc) < 0"
      using Cons.prems(1,2) by (cases "x = m") auto
    with True show ?thesis by (simp add: hd_insert_sorted insert_sorted_not_Nil)
  next
    case False
    with Cons.prems(3) have mem: "m \<in> set (x # xs)" by simp
    show ?thesis
    proof (cases "x = m")
      case True
      have "acc \<noteq> [] \<Longrightarrow> cmp m (hd acc) < 0"
        using False Cons.prems(1) by (cases acc) auto
      with True show ?thesis by (auto simp: hd_insert_sorted insert_sorted_not_Nil)
    next
      case False
      with mem show ?thesis by simp
    qed
  qed
  from Cons.IH [OF others Cons.prems(2) place] show ?case by simp
qed

lemma Array_sort_greatest_first:
  assumes "m \<in> set xs"
    and "\<forall>y \<in> set xs. y \<noteq> m \<longrightarrow> cmp m y < 0 \<and> \<not> cmp y m < 0"
    and "\<not> cmp m m < 0"
  shows "\<exists>rest. Array_sort cmp xs = m # rest"
proof -
  have "sort_from cmp [] xs \<noteq> [] \<and> hd (sort_from cmp [] xs) = m"
    using assms by (intro sort_from_greatest_first) auto
  then show ?thesis
    by (cases "sort_from cmp [] xs") (auto simp: Array_sort_def)
qed

lemma newest_first_neg: "newest_first r1 r2 < 0 \<longleftrightarrow> Semver_lt (fst r2) (fst r1)"
  by (simp add: newest_first_def Semver_gt_iff_lt)

lemma Semver_lt_asym: "Semver_lt a b \<Longrightarrow> \<not> Semver_lt b a"
  using Semver_lt_trans [of a b a] Semver_lt_irrefl [of a] by blast

lemma findLatestRelease_member:
  "findLatestRelease h = Inr r \<Longrightarrow> r \<in> set h \<and> enabled (snd r)"
proof -
  assume r: "findLatestRelease h = Inr r"
  let ?on = "filter (\<lambda>(v, bundle). enabled bundle) h"
  from r have "r \<in> set (Array_sort newest_first ?on)"
    by (auto simp: findLatestRelease_def split: list.splits)
  then have "r \<in> set ?on" by (simp add: set_Array_sort)
  then show ?thesis by auto
qed

lemma findLatestRelease_throws_iff:
  "findLatestRelease h = Inl NoLatestRelease \<longleftrightarrow> (\<forall>(v, e) \<in> set h. \<not> enabled e)"
proof -
  let ?on = "filter (\<lambda>(v, bundle). enabled bundle) h"
  have "findLatestRelease h = Inl NoLatestRelease \<longleftrightarrow> ?on = []"
    using Array_sort_Nil_iff [of newest_first ?on]
    by (auto simp: findLatestRelease_def split: list.splits)
  also have "\<dots> \<longleftrightarrow> (\<forall>(v, e) \<in> set h. \<not> enabled e)"
    by (auto simp: filter_empty_conv)
  finally show ?thesis .
qed

lemma findLatestRelease_greatest:
  assumes "(v, e) \<in> set h" and "enabled e"
    and "\<forall>(v', e') \<in> set h. enabled e' \<longrightarrow> (v', e') \<noteq> (v, e) \<longrightarrow> Semver_lt v' v"
  shows "findLatestRelease h = Inr (v, e)"
proof -
  let ?on = "filter (\<lambda>(v, bundle). enabled bundle) h"
  have mem: "(v, e) \<in> set ?on" using assms(1,2) by simp
  have others: "\<forall>y \<in> set ?on. y \<noteq> (v, e) \<longrightarrow>
      newest_first (v, e) y < 0 \<and> \<not> newest_first y (v, e) < 0"
    using assms(3) by (auto simp: newest_first_neg dest: Semver_lt_asym)
  have self: "\<not> newest_first (v, e) (v, e) < 0"
    by (simp add: newest_first_neg Semver_lt_irrefl)
  from Array_sort_greatest_first [OF mem others self]
  show ?thesis by (auto simp: findLatestRelease_def)
qed

text \<open>Under the comparison function of the resolver the first element of the sorted
  list is a greatest one, also where versions tie: no element has a strictly greater
  version.\<close>

lemma sort_from_newest_first_head:
  assumes "acc = [] \<or> (\<forall>y \<in> set acc. \<not> Semver_lt (fst (hd acc)) (fst y))"
    and "sort_from newest_first acc xs = r # rest"
  shows "\<forall>y \<in> set acc \<union> set xs. \<not> Semver_lt (fst r) (fst y)"
  using assms
proof (induction xs arbitrary: acc)
  case Nil
  then show ?case by auto
next
  case (Cons x xs)
  let ?acc = "insert_sorted newest_first x acc"
  have head: "\<forall>y \<in> set ?acc. \<not> Semver_lt (fst (hd ?acc)) (fst y)"
  proof (cases "acc = []")
    case True
    then show ?thesis by (simp add: Semver_lt_irrefl)
  next
    case False
    with Cons.prems(1) have old: "\<forall>y \<in> set acc. \<not> Semver_lt (fst (hd acc)) (fst y)" by simp
    show ?thesis
    proof (cases "newest_first x (hd acc) < 0")
      case True
      then have up: "Semver_lt (fst (hd acc)) (fst x)" by (simp add: newest_first_neg)
      have "\<not> Semver_lt (fst x) (fst y)" if "y \<in> set acc" for y
      proof
        assume "Semver_lt (fst x) (fst y)"
        with up have "Semver_lt (fst (hd acc)) (fst y)" by (rule Semver_lt_trans)
        with old that show False by simp
      qed
      with True False show ?thesis
        by (auto simp: hd_insert_sorted set_insert_sorted Semver_lt_irrefl)
    next
      case stay: False
      then have "\<not> Semver_lt (fst (hd acc)) (fst x)" by (simp add: newest_first_neg)
      with stay False old show ?thesis
        by (auto simp: hd_insert_sorted set_insert_sorted)
    qed
  qed
  from Cons.prems(2) have "sort_from newest_first ?acc xs = r # rest" by simp
  from Cons.IH [OF _ this] head
  have "\<forall>y \<in> set ?acc \<union> set xs. \<not> Semver_lt (fst r) (fst y)" by blast
  then show ?case by (auto simp: set_insert_sorted)
qed

lemma findLatestRelease_not_exceeded:
  assumes "findLatestRelease h = Inr (v, e)" and "(v', e') \<in> set h" and "enabled e'"
  shows "\<not> Semver_lt v v'"
proof -
  let ?on = "filter (\<lambda>(v, bundle). enabled bundle) h"
  from assms(1) obtain rest where "sort_from newest_first [] ?on = (v, e) # rest"
    by (auto simp: findLatestRelease_def Array_sort_def split: list.splits)
  from sort_from_newest_first_head [OF _ this]
  have "\<forall>y \<in> set ?on. \<not> Semver_lt v (fst y)" by simp
  moreover have "(v', e') \<in> set ?on" using assms(2,3) by simp
  ultimately show ?thesis by fastforce
qed

section \<open>Claims about the release resolver\<close>

text \<open>
  C7. For all semantic versions \<open>a\<close> and \<open>b\<close>, pre-release forms included,
  \<open>shouldRollback a b\<close> is true exactly when \<open>b\<close> precedes \<open>a\<close> strictly.
  It is false for \<open>b = a\<close>, and it is false exactly when \<open>b\<close> is greater than
  \<open>a\<close> or of the same precedence as \<open>a\<close>; \<open>b\<close> precedes \<open>a\<close> strictly
  exactly when \<open>a\<close> does not precede \<open>b\<close> and the two are not of the same
  precedence.
\<close>

theorem shouldRollback_iff_strictly_less:
  "(shouldRollback a b \<longleftrightarrow> Semver_lt b a) \<and>
   shouldRollback a a = False \<and>
   (shouldRollback a b = False \<longleftrightarrow> Semver_gt b a \<or> same_version b a) \<and>
   (shouldRollback a b = False \<longleftrightarrow> Semver_gte b a) \<and>
   (shouldRollback a b \<longleftrightarrow> \<not> shouldRollback b a \<and> \<not> same_version b a)"
proof -
  have sign: "compare a b = - compare b a" by (rule compare_flip)
  have zero: "compare b a = 0 \<longleftrightarrow> same_version b a" by (rule compare_zero)
  have "\<not> Semver_lt a a" by (rule Semver_lt_irrefl)
  moreover have "\<not> Semver_lt b a \<longleftrightarrow> Semver_gt b a \<or> same_version b a"
    using zero by (auto simp: Semver_lt_def Semver_gt_def)
  moreover have "\<not> Semver_lt b a \<longleftrightarrow> Semver_gte b a"
    by (simp add: Semver_gte_iff_not_lt)
  moreover have "Semver_lt b a \<longleftrightarrow> \<not> Semver_lt a b \<and> \<not> same_version b a"
    using sign zero by (auto simp: Semver_lt_def)
  ultimately show ?thesis by (simp add: shouldRollback_def)
qed

text \<open>The cases of the repository's test suite for \<^verbatim>\<open>shouldRollback\<close>:
  1.2.0 against 1.1.0, 1.1.0 against itself, 1.0.0 against 1.1.0, and the four
  pre-release cases.\<close>

lemma shouldRollback_test_suite:
  "shouldRollback (version 1 2 0) (version 1 1 0)"
  "\<not> shouldRollback (version 1 1 0) (version 1 1 0)"
  "\<not> shouldRollback (version 1 0 0) (version 1 1 0)"
  "shouldRollback (version 1 0 0) ((version 1 0 0)\<lparr>prerelease := [Alphanumeric ''beta'', Numeric 1]\<rparr>)"
  "shouldRollback ((version 1 0 0)\<lparr>prerelease := [Alphanumeric ''beta'', Numeric 2]\<rparr>)
     ((version 1 0 0)\<lparr>prerelease := [Alphanumeric ''beta'', Numeric 1]\<rparr>)"
  "\<not> shouldRollback ((version 1 0 0)\<lparr>prerelease := [Alphanumeric ''beta'', Numeric 1]\<rparr>)
     ((version 1 0 0)\<lparr>prerelease := [Alphanumeric ''beta'', Numeric 2]\<rparr>)"
  "\<not> shouldRollback ((version 1 0 0)\<lparr>prerelease := [Alphanumeric ''beta'', Numeric 1]\<rparr>)
     (version 1 0 0)"
  by (simp_all add: shouldRollback_def Semver_lt_def compare_def same_version_def js_or_def
      compareMain_def comparePre_def version_def)

text \<open>Cases of the test suite for the two other functions: the semantic order is
  not the order of the strings (1.0.10 is the latest of 1.0.0, 1.0.10, 1.0.2, 1.0.9); a
  disabled newest version is passed over; pre-release versions compare by their
  identifiers; the latest mandatory version decides, and a runtime version equal to
  it needs no mandatory update.\<close>

lemma resolver_test_suite:
  "findLatestRelease
     [(version 1 0 0, release True False), (version 1 0 10, release True False),
      (version 1 0 2, release True False), (version 1 0 9, release True False)]
     = Inr (version 1 0 10, release True False)"
  "findLatestRelease
     [(version 1 0 0, release True False), (version 1 0 1, release True True),
      (version 1 1 0, release True False), (version 1 2 0, release False False)]
     = Inr (version 1 1 0, release True False)"
  "findLatestRelease [(version 1 0 0, release False False), (version 1 1 0, release False True)]
     = Inl NoLatestRelease"
  "checkIsMandatory ((version 1 0 0)\<lparr>prerelease := [Alphanumeric ''beta'', Numeric 1]\<rparr>)
     [((version 1 0 0)\<lparr>prerelease := [Alphanumeric ''alpha'', Numeric 1]\<rparr>, release True False),
      ((version 1 0 0)\<lparr>prerelease := [Alphanumeric ''beta'', Numeric 2]\<rparr>, release True True)]"
  "checkIsMandatory (version 1 0 5)
     [(version 1 0 0, release True False), (version 1 0 1, release True True),
      (version 1 0 5, release True False), (version 1 1 0, release True True)]"
  "\<not> checkIsMandatory (version 1 1 0)
     [(version 1 0 0, release True False), (version 1 1 0, release True True)]"
  "\<not> checkIsMandatory (version 1 0 0)
     [(version 1 0 0, release True False), (version 1 1 0, release False True),
      (version 1 2 0, release True False)]"
  by (simp_all add: findLatestRelease_def checkIsMandatory_def Array_sort_def newest_first_def
      Semver_gt_def compare_def same_version_def js_or_def compareMain_def comparePre_def
      version_def release_def)

text \<open>
  C1, as the code has it. An all-disabled or empty history makes
  \<open>findLatestRelease\<close> throw, and only such a history does. Every other history
  yields one of its enabled entries, never a disabled one, and the version of the
  entry it yields is a greatest one: no enabled entry has a strictly greater version.
  When no other enabled key is of the same precedence as the greatest, that is, when
  one enabled entry has a version strictly greater than the version of every other
  enabled entry, that entry is the result.
\<close>

theorem findLatestRelease_latest_enabled:
  "(findLatestRelease h = Inl NoLatestRelease \<longleftrightarrow> (\<forall>(v', e') \<in> set h. \<not> enabled e')) \<and>
   ((\<exists>(v', e') \<in> set h. enabled e') \<longrightarrow>
      (\<exists>r. findLatestRelease h = Inr r \<and> r \<in> set h \<and> enabled (snd r) \<and>
         (\<forall>(v', e') \<in> set h. enabled e' \<longrightarrow> \<not> Semver_lt (fst r) v'))) \<and>
   ((v, e) \<in> set h \<and> enabled e \<and>
    (\<forall>(v', e') \<in> set h. enabled e' \<longrightarrow> (v', e') \<noteq> (v, e) \<longrightarrow> Semver_lt v' v) \<longrightarrow>
      findLatestRelease h = Inr (v, e))"
proof (intro conjI impI)
  show "findLatestRelease h = Inl NoLatestRelease \<longleftrightarrow> (\<forall>(v', e') \<in> set h. \<not> enabled e')"
    by (rule findLatestRelease_throws_iff)
next
  assume some: "\<exists>(v', e') \<in> set h. enabled e'"
  then have "findLatestRelease h \<noteq> Inl NoLatestRelease"
    by (auto simp: findLatestRelease_throws_iff)
  then obtain r where r: "findLatestRelease h = Inr r"
    by (cases "findLatestRelease h") (auto intro: resolver_error.exhaust)
  then have "findLatestRelease h = Inr (fst r, snd r)" by simp
  from findLatestRelease_not_exceeded [OF this]
  have "\<forall>(v', e') \<in> set h. enabled e' \<longrightarrow> \<not> Semver_lt (fst r) v'" by blast
  with r findLatestRelease_member [OF r]
  show "\<exists>r. findLatestRelease h = Inr r \<and> r \<in> set h \<and> enabled (snd r) \<and>
         (\<forall>(v', e') \<in> set h. enabled e' \<longrightarrow> \<not> Semver_lt (fst r) v')" by blast
next
  assume "(v, e) \<in> set h \<and> enabled e \<and>
    (\<forall>(v', e') \<in> set h. enabled e' \<longrightarrow> (v', e') \<noteq> (v, e) \<longrightarrow> Semver_lt v' v)"
  then show "findLatestRelease h = Inr (v, e)"
    by (intro findLatestRelease_greatest) auto
qed

text \<open>The theorem at the history of the test suite in which the newest version, 1.1.0,
  is disabled: 1.0.5 is the result. At the history
  \<^verbatim>\<open>{0.9.0, 1.0.0+a, 1.0.0+b}\<close>, all enabled, the result is not 0.9.0, which the
  version 1.0.0 exceeds. The empty history throws.\<close>

theorem findLatestRelease_latest_enabled_witness:
  "findLatestRelease
     [(version 1 0 0, release True False), (version 1 1 0, release False False),
      (version 1 0 5, release True True)] = Inr (version 1 0 5, release True True) \<and>
   findLatestRelease
     [(version 0 9 0, release True False),
      ((version 1 0 0)\<lparr>build := [''a'']\<rparr>, release True False),
      ((version 1 0 0)\<lparr>build := [''b'']\<rparr>, release True False)]
     \<noteq> Inr (version 0 9 0, release True False) \<and>
   findLatestRelease [] = Inl NoLatestRelease"
proof -
  let ?h = "[(version 1 0 0, release True False), (version 1 1 0, release False False),
      (version 1 0 5, release True True)]"
  let ?t = "[(version 0 9 0, release True False),
      ((version 1 0 0)\<lparr>build := [''a'']\<rparr>, release True False),
      ((version 1 0 0)\<lparr>build := [''b'']\<rparr>, release True False)]"
  have lt: "Semver_lt (version 0 9 0) ((version 1 0 0)\<lparr>build := [''a'']\<rparr>)"
    by (simp add: Semver_lt_def compare_def same_version_def js_or_def compareMain_def version_def)
  have on: "\<exists>(v', e') \<in> set ?t. enabled e'" by (simp add: release_def)
  from findLatestRelease_latest_enabled [of ?t "version 0 9 0" "release True False"] on
  obtain r where r: "findLatestRelease ?t = Inr r"
    and top: "\<forall>(v', e') \<in> set ?t. enabled e' \<longrightarrow> \<not> Semver_lt (fst r) v'" by blast
  from top have "\<not> Semver_lt (fst r) ((version 1 0 0)\<lparr>build := [''a'']\<rparr>)"
    by (simp add: release_def)
  with lt r have 2: "findLatestRelease ?t \<noteq> Inr (version 0 9 0, release True False)" by auto
  from findLatestRelease_latest_enabled [of ?h "version 1 0 5" "release True True"]
  have 1: "findLatestRelease ?h = Inr (version 1 0 5, release True True)"
    by (simp add: Semver_lt_def compare_def same_version_def js_or_def compareMain_def
        comparePre_def version_def release_def)
  from findLatestRelease_latest_enabled [of "[]" "version 1 0 0" "release True True"]
  have 3: "findLatestRelease [] = Inl NoLatestRelease" by simp
  from 1 2 3 show ?thesis by blast
qed

text \<open>
  C1 as stated fails where two enabled keys are of the same precedence. The keys
  \<^verbatim>\<open>1.0.0+a\<close> and \<^verbatim>\<open>1.0.0+b\<close> are different keys, both entries are enabled,
  the call returns the first, and the version of the second is not strictly less: no
  entry of this history has the strictly greatest version.
\<close>

theorem findLatestRelease_tie_counterexample:
  "findLatestRelease
     [((version 1 0 0)\<lparr>build := [''a'']\<rparr>, release True False),
      ((version 1 0 0)\<lparr>build := [''b'']\<rparr>, release True False)]
     = Inr ((version 1 0 0)\<lparr>build := [''a'']\<rparr>, release True False) \<and>
   (version 1 0 0)\<lparr>build := [''b'']\<rparr> \<noteq> (version 1 0 0)\<lparr>build := [''a'']\<rparr> \<and>
   enabled (release True False) \<and>
   \<not> Semver_lt ((version 1 0 0)\<lparr>build := [''b'']\<rparr>) ((version 1 0 0)\<lparr>build := [''a'']\<rparr>) \<and>
   \<not> Semver_lt ((version 1 0 0)\<lparr>build := [''a'']\<rparr>) ((version 1 0 0)\<lparr>build := [''b'']\<rparr>)"
  by (simp add: findLatestRelease_def Array_sort_def newest_first_def Semver_gt_def
      Semver_lt_def compare_def same_version_def version_def release_def)

text \<open>
  C8. With the history fixed, \<open>checkIsMandatory\<close> is antitone in the runtime
  version: true at \<open>v\<close>, it is true at every \<open>v'\<close> strictly less than \<open>v\<close>. It
  is false when no entry of the history is both enabled and mandatory.
\<close>

theorem checkIsMandatory_antitone:
  "(checkIsMandatory v h \<and> Semver_lt v' v \<longrightarrow> checkIsMandatory v' h) \<and>
   ((\<forall>(k, b) \<in> set h. \<not> (enabled b \<and> mandatory b)) \<longrightarrow> \<not> checkIsMandatory v h)"
proof (intro conjI impI)
  let ?must = "filter (\<lambda>(v, bundle). mandatory bundle)
    (Array_sort newest_first (filter (\<lambda>(v, bundle). enabled bundle) h))"
  assume a: "checkIsMandatory v h \<and> Semver_lt v' v"
  then obtain m b rest where m: "?must = (m, b) # rest" and gt: "Semver_gt m v"
    by (auto simp: checkIsMandatory_def split: list.splits)
  from gt have "Semver_lt v m" by (simp add: Semver_gt_iff_lt)
  with a have "Semver_lt v' m" by (blast intro: Semver_lt_trans)
  then have "Semver_gt m v'" by (simp add: Semver_gt_iff_lt)
  with m show "checkIsMandatory v' h" by (simp add: checkIsMandatory_def)
next
  let ?sorted = "Array_sort newest_first (filter (\<lambda>(v, bundle). enabled bundle) h)"
  assume none: "\<forall>(k, b) \<in> set h. \<not> (enabled b \<and> mandatory b)"
  have "\<forall>r \<in> set ?sorted. \<not> mandatory (snd r)"
    using none by (auto simp: set_Array_sort)
  then have "filter (\<lambda>(v, bundle). mandatory bundle) ?sorted = []"
    by (auto simp: filter_empty_conv)
  then show "\<not> checkIsMandatory v h" by (simp add: checkIsMandatory_def)
qed

text \<open>The theorem at the history \<^verbatim>\<open>{1.0.0: optional, 1.1.0: mandatory}\<close>: mandatory
  for the runtime version 1.0.5, hence for 1.0.0; and at a history whose only
  mandatory entry is disabled.\<close>

theorem checkIsMandatory_antitone_witness:
  "checkIsMandatory (version 1 0 5) [(version 1 0 0, release True False), (version 1 1 0, release True True)] \<and>
   Semver_lt (version 1 0 0) (version 1 0 5) \<and>
   checkIsMandatory (version 1 0 0) [(version 1 0 0, release True False), (version 1 1 0, release True True)] \<and>
   \<not> checkIsMandatory (version 1 0 0) [(version 1 0 0, release True False), (version 1 1 0, release False True)]"
proof -
  let ?h = "[(version 1 0 0, release True False), (version 1 1 0, release True True)]"
  let ?h' = "[(version 1 0 0, release True False), (version 1 1 0, release False True)]"
  have lt: "Semver_lt (version 1 0 0) (version 1 0 5)"
    by (simp add: Semver_lt_def compare_def same_version_def js_or_def compareMain_def version_def)
  have at: "checkIsMandatory (version 1 0 5) ?h"
    by (simp add: checkIsMandatory_def Array_sort_def newest_first_def Semver_gt_def compare_def
        same_version_def js_or_def compareMain_def version_def release_def)
  have none: "\<forall>(k, b) \<in> set ?h'. \<not> (enabled b \<and> mandatory b)"
    by (simp add: release_def)
  from checkIsMandatory_antitone [of "version 1 0 5" ?h "version 1 0 0"] at lt
  have below: "checkIsMandatory (version 1 0 0) ?h" by blast
  from checkIsMandatory_antitone [of "version 1 0 0" ?h' "version 1 0 0"] none
  have "\<not> checkIsMandatory (version 1 0 0) ?h'" by blast
  with at lt below show ?thesis by blast
qed

section \<open>Claims about the rollback retry policy\<close>

lemma validateRollbackRetryOptions_valid:
  assumes "get_property options ''delayInHours'' = JNum d"
    and "get_property options ''maxRetryAttempts'' = JNum m" and "1 \<le> m"
  shows "validateRollbackRetryOptions options = (True, [])"
  using assms by (simp add: validateRollbackRetryOptions_def)

lemma validateRollbackRetryOptions_invalid:
  assumes "typeof (get_property options ''delayInHours'') \<noteq> ''number'' \<or>
     typeof (get_property options ''maxRetryAttempts'') \<noteq> ''number'' \<or>
     (\<exists>n. get_property options ''maxRetryAttempts'' = JNum n \<and> n < 1)"
  shows "fst (validateRollbackRetryOptions options) = False \<and>
     snd (validateRollbackRetryOptions options) \<in>
       {[''The 'delayInHours' rollback retry parameter must be a number.''],
        [''The 'maxRetryAttempts' rollback retry parameter must be a number.''],
        [''The 'maxRetryAttempts' rollback retry parameter cannot be less then 1.'']}"
proof (cases "typeof (get_property options ''delayInHours'') \<noteq> ''number''")
  case True
  then show ?thesis by (simp add: validateRollbackRetryOptions_def)
next
  case delay: False
  show ?thesis
  proof (cases "typeof (get_property options ''maxRetryAttempts'') \<noteq> ''number''")
    case True
    with delay show ?thesis by (simp add: validateRollbackRetryOptions_def)
  next
    case False
    with delay assms obtain n where "get_property options ''maxRetryAttempts'' = JNum n" "n < 1"
      by auto
    with delay show ?thesis by (simp add: validateRollbackRetryOptions_def)
  qed
qed

text \<open>
  C9. \<open>shouldUpdateBeIgnored\<close> answers false when there is no candidate update, when
  the candidate is not flagged \<open>failedInstall\<close>, and when \<open>ignoreFailedUpdates\<close>
  is false. It answers true when the candidate is a failed update,
  \<open>ignoreFailedUpdates\<close> is true and no retry policy is configured (the option is
  null, undefined or another falsy value), whatever the time and the persisted rollback
  record are.
\<close>

theorem shouldUpdateBeIgnored_without_policy:
  "((remotePackage = None \<or> (\<exists>rp. remotePackage = Some rp \<and> \<not> RemotePackage.failedInstall rp) \<or>
     \<not> ignoreFailedUpdates syncOptions) \<longrightarrow>
      fst (shouldUpdateBeIgnored remotePackage syncOptions latestRollbackInfo now) = False) \<and>
   ((\<exists>rp. remotePackage = Some rp \<and> RemotePackage.failedInstall rp) \<and> ignoreFailedUpdates syncOptions \<and>
     \<not> truthy (rollbackRetryOptions syncOptions) \<longrightarrow>
      fst (shouldUpdateBeIgnored remotePackage syncOptions latestRollbackInfo now) = True)"
  by (auto simp: shouldUpdateBeIgnored_def)

text \<open>The theorem at a candidate that did not fail, and at a failed candidate under the
  default options of a sync (\<^verbatim>\<open>ignoreFailedUpdates: true, rollbackRetryOptions: null\<close>)
  with a rollback recorded long ago.\<close>

theorem shouldUpdateBeIgnored_without_policy_witness:
  "fst (shouldUpdateBeIgnored (Some (package_of ''h2'' False)) default_sync_options None 0) = False \<and>
   fst (shouldUpdateBeIgnored (Some (package_of ''h2'' True)) default_sync_options
     (Some \<lparr>time = 1, count = 1, packageHash = ''h2''\<rparr>) 900000000000) = True"
  using shouldUpdateBeIgnored_without_policy [of
      "Some (package_of ''h2'' False)" default_sync_options None 0]
    shouldUpdateBeIgnored_without_policy [of
      "Some (package_of ''h2'' True)" default_sync_options
      "Some \<lparr>time = 1, count = 1, packageHash = ''h2''\<rparr>" 900000000000]
  by (simp add: package_of_def default_sync_options_def)

text \<open>
  C4, as the code has it. The code validates the policy it works with: the defaults
  \<^verbatim>\<open>{ delayInHours: 24, maxRetryAttempts: 1 }\<close> for a truthy value that is no
  object, and else the configured object's own properties over the defaults. For a
  failed candidate with \<open>ignoreFailedUpdates\<close> true and a configured value for which
  that policy is invalid (\<open>delayInHours\<close> is no number, or \<open>maxRetryAttempts\<close> is
  no number, or \<open>maxRetryAttempts\<close> is below 1; so for an object that itself sets a
  property to such a value), \<open>shouldUpdateBeIgnored\<close> answers true and logs exactly
  one line, the warning of the validation.
\<close>

theorem shouldUpdateBeIgnored_invalid_policy:
  assumes "remotePackage = Some rp" and "RemotePackage.failedInstall rp" and "ignoreFailedUpdates syncOptions"
    and "truthy (rollbackRetryOptions syncOptions)"
    and "typeof (get_property (effective_retry_options (rollbackRetryOptions syncOptions))
             ''delayInHours'') \<noteq> ''number'' \<or>
         typeof (get_property (effective_retry_options (rollbackRetryOptions syncOptions))
             ''maxRetryAttempts'') \<noteq> ''number'' \<or>
         (\<exists>n. get_property (effective_retry_options (rollbackRetryOptions syncOptions))
             ''maxRetryAttempts'' = JNum n \<and> n < 1)"
  shows "fst (shouldUpdateBeIgnored remotePackage syncOptions latestRollbackInfo now) = True \<and>
     snd (shouldUpdateBeIgnored remotePackage syncOptions latestRollbackInfo now) \<in>
       {[''The 'delayInHours' rollback retry parameter must be a number.''],
        [''The 'maxRetryAttempts' rollback retry parameter must be a number.''],
        [''The 'maxRetryAttempts' rollback retry parameter cannot be less then 1.'']}"
proof -
  let ?options = "effective_retry_options (rollbackRetryOptions syncOptions)"
  obtain valid warnings where v: "validateRollbackRetryOptions ?options = (valid, warnings)"
    by (cases "validateRollbackRetryOptions ?options")
  from validateRollbackRetryOptions_invalid [OF assms(5)] v
  have "\<not> valid" and w: "warnings \<in>
       {[''The 'delayInHours' rollback retry parameter must be a number.''],
        [''The 'maxRetryAttempts' rollback retry parameter must be a number.''],
        [''The 'maxRetryAttempts' rollback retry parameter cannot be less then 1.'']}"
    by simp_all
  with v assms(1-4)
  have "shouldUpdateBeIgnored remotePackage syncOptions latestRollbackInfo now = (True, warnings)"
    by (simp add: shouldUpdateBeIgnored_def)
  with w show ?thesis by simp
qed

text \<open>The theorem at the configured policy \<^verbatim>\<open>{ maxRetryAttempts: 0 }\<close>.\<close>

theorem shouldUpdateBeIgnored_invalid_policy_witness:
  "shouldUpdateBeIgnored (Some (package_of ''h2'' True))
     (default_sync_options\<lparr>rollbackRetryOptions := JObject [(''maxRetryAttempts'', JNum 0)]\<rparr>)
     (Some \<lparr>time = 3600000, count = 1, packageHash = ''h2''\<rparr>) (26 * 3600000)
   = (True, [''The 'maxRetryAttempts' rollback retry parameter cannot be less then 1.''])"
proof -
  let ?options = "default_sync_options\<lparr>rollbackRetryOptions := JObject [(''maxRetryAttempts'', JNum 0)]\<rparr>"
  let ?info = "Some \<lparr>time = 3600000, count = 1, packageHash = ''h2''\<rparr>"
  let ?r = "shouldUpdateBeIgnored (Some (package_of ''h2'' True)) ?options ?info (26 * 3600000)"
  have failed: "RemotePackage.failedInstall (package_of ''h2'' True)" by (simp add: package_of_def)
  have ignore: "ignoreFailedUpdates ?options" by (simp add: default_sync_options_def)
  have policy: "truthy (rollbackRetryOptions ?options)" by simp
  have eff: "get_property (effective_retry_options (rollbackRetryOptions ?options))
      ''maxRetryAttempts'' = JNum 0"
    by (simp add: effective_retry_options_def spread_def get_property_def)
  have invalid: "typeof (get_property (effective_retry_options (rollbackRetryOptions ?options))
             ''delayInHours'') \<noteq> ''number'' \<or>
         typeof (get_property (effective_retry_options (rollbackRetryOptions ?options))
             ''maxRetryAttempts'') \<noteq> ''number'' \<or>
         (\<exists>n. get_property (effective_retry_options (rollbackRetryOptions ?options))
             ''maxRetryAttempts'' = JNum n \<and> n < 1)"
    using eff by simp
  from shouldUpdateBeIgnored_invalid_policy [OF refl failed ignore policy invalid, of ?info "26 * 3600000"]
  have "fst ?r = True" by blast
  moreover have "snd ?r = [''The 'maxRetryAttempts' rollback retry parameter cannot be less then 1.'']"
    by (simp add: shouldUpdateBeIgnored_def package_of_def default_sync_options_def
        effective_retry_options_def spread_def get_property_def validateRollbackRetryOptions_def
        DEFAULT_ROLLBACK_RETRY_OPTIONS_def)
  ultimately show ?thesis by (simp add: prod_eq_iff)
qed

text \<open>
  C4 as stated fails at a configured value whose own \<open>delayInHours\<close> is no number
  but which the defaults complete to a valid policy: the empty object
  \<^verbatim>\<open>{}\<close>. Its \<open>delayInHours\<close> is undefined; the code takes 24 and 1, logs no
  warning and, with a rollback of the candidate recorded 25 hours ago with count 1,
  does not ignore the update. The value \<^verbatim>\<open>true\<close> does the same.
\<close>

theorem shouldUpdateBeIgnored_empty_policy_counterexample:
  "typeof (get_property (own_properties (JObject [])) ''delayInHours'') \<noteq> ''number'' \<and>
   truthy (JObject []) \<and>
   shouldUpdateBeIgnored (Some (package_of ''h2'' True))
     (default_sync_options\<lparr>rollbackRetryOptions := JObject []\<rparr>)
     (Some \<lparr>time = 3600000, count = 1, packageHash = ''h2''\<rparr>) (26 * 3600000)
     = (False, [''Previous rollback should be ignored due to rollback retry options.'']) \<and>
   typeof (get_property (own_properties (JBool True)) ''delayInHours'') \<noteq> ''number'' \<and>
   truthy (JBool True) \<and>
   shouldUpdateBeIgnored (Some (package_of ''h2'' True))
     (default_sync_options\<lparr>rollbackRetryOptions := JBool True\<rparr>)
     (Some \<lparr>time = 3600000, count = 1, packageHash = ''h2''\<rparr>) (26 * 3600000)
     = (False, [''Previous rollback should be ignored due to rollback retry options.''])"
proof -
  have hours: "(24 :: real) \<le> double_divide (double_minus (26 * 3600000) 3600000) 3600000"
    by code_simp
  then show ?thesis
    by (simp add: shouldUpdateBeIgnored_def package_of_def default_sync_options_def
        effective_retry_options_def spread_def get_property_def validateRollbackRetryOptions_def
        validateLatestRollbackInfo_def DEFAULT_ROLLBACK_RETRY_OPTIONS_def)
qed

text \<open>
  C3, as the code has it. Let the candidate be a failed update, \<open>ignoreFailedUpdates\<close>
  true, the retry policy valid (numbers \<open>delayInHours\<close> and
  \<open>maxRetryAttempts \<ge> 1\<close>), and the persisted rollback record well formed (its time
  and its count are not zero, its hash is not empty) with the hash of the candidate.
  Then \<open>shouldUpdateBeIgnored\<close> answers false exactly when the hours elapsed since
  the recorded time, as the code computes them in double arithmetic (the difference of
  the two times in milliseconds, divided by 3600000, each result rounded to a double),
  are at least \<open>delayInHours\<close> and the recorded count is at most
  \<open>maxRetryAttempts\<close>; otherwise it answers true.
\<close>

theorem shouldUpdateBeIgnored_retry_iff:
  assumes "remotePackage = Some rp" and "RemotePackage.failedInstall rp" and "ignoreFailedUpdates syncOptions"
    and "truthy (rollbackRetryOptions syncOptions)"
    and "get_property (effective_retry_options (rollbackRetryOptions syncOptions))
           ''delayInHours'' = JNum delayInHours"
    and "get_property (effective_retry_options (rollbackRetryOptions syncOptions))
           ''maxRetryAttempts'' = JNum maxRetryAttempts"
    and "1 \<le> maxRetryAttempts"
    and "latestRollbackInfo = Some info"
    and "Update.packageHash rp = Some (RollbackInfo.packageHash info)"
    and "time info \<noteq> 0" and "count info \<noteq> 0" and "RollbackInfo.packageHash info \<noteq> []"
  shows "fst (shouldUpdateBeIgnored remotePackage syncOptions latestRollbackInfo now) = False \<longleftrightarrow>
     double_divide (double_minus now (time info)) 3600000 \<ge> delayInHours \<and>
     of_int (count info) \<le> maxRetryAttempts"
proof -
  let ?options = "effective_retry_options (rollbackRetryOptions syncOptions)"
  have valid: "validateRollbackRetryOptions ?options = (True, [])"
    using assms(5-7) by (rule validateRollbackRetryOptions_valid)
  have info: "validateLatestRollbackInfo latestRollbackInfo (Update.packageHash rp)"
    using assms(8-12) by (simp add: validateLatestRollbackInfo_def)
  show ?thesis
    using assms(1-6,8) valid info by (simp add: shouldUpdateBeIgnored_def)
qed

text \<open>The scenario of the specification: the policy
  \<^verbatim>\<open>{ delayInHours: 24, maxRetryAttempts: 1 }\<close>, a rollback of the candidate's hash
  recorded 25 hours ago with count 1. The double arithmetic is exact there: the hours
  are 25, and the update is not ignored.\<close>

theorem shouldUpdateBeIgnored_retry_iff_witness:
  "double_divide (double_minus (26 * 3600000) 3600000) 3600000 = 25 \<and>
   fst (shouldUpdateBeIgnored (Some (package_of ''h2'' True))
     (default_sync_options\<lparr>rollbackRetryOptions :=
        JObject [(''delayInHours'', JNum 24), (''maxRetryAttempts'', JNum 1)]\<rparr>)
     (Some \<lparr>time = 3600000, count = 1, packageHash = ''h2''\<rparr>) (26 * 3600000)) = False"
proof -
  let ?options = "default_sync_options\<lparr>rollbackRetryOptions :=
        JObject [(''delayInHours'', JNum 24), (''maxRetryAttempts'', JNum 1)]\<rparr>"
  let ?info = "\<lparr>time = 3600000, count = 1, packageHash = ''h2''\<rparr>"
  have hours: "double_divide (double_minus (26 * 3600000) 3600000) 3600000 = 25"
    by code_simp
  have failed: "RemotePackage.failedInstall (package_of ''h2'' True)" by (simp add: package_of_def)
  have ignore: "ignoreFailedUpdates ?options" by (simp add: default_sync_options_def)
  have policy: "truthy (rollbackRetryOptions ?options)" by simp
  have delay: "get_property (effective_retry_options (rollbackRetryOptions ?options))
      ''delayInHours'' = JNum 24"
    by (simp add: effective_retry_options_def spread_def get_property_def)
  have attempts: "get_property (effective_retry_options (rollbackRetryOptions ?options))
      ''maxRetryAttempts'' = JNum 1"
    by (simp add: effective_retry_options_def spread_def get_property_def)
  have hash: "Update.packageHash (package_of ''h2'' True) = Some (RollbackInfo.packageHash ?info)"
    by (simp add: package_of_def)
  from shouldUpdateBeIgnored_retry_iff [OF refl failed ignore policy delay attempts _ refl hash,
      of "26 * 3600000"] hours
  show ?thesis by simp
qed

text \<open>The rounding decides at the edge. With \<^verbatim>\<open>delayInHours: 0.1\<close>, which is the
  double nearest to one tenth and a little above it, and a rollback recorded exactly
  360000 milliseconds ago, the quotient is rounded to that same double: the delay has
  elapsed, and the update is not ignored, although one tenth itself is below the
  delay.\<close>

lemma shouldUpdateBeIgnored_tenth_of_an_hour:
  "(360000 / 3600000 :: real) < to_double (1 / 10)"
  "double_divide (double_minus (3600000 + 360000) 3600000) 3600000 = to_double (1 / 10)"
  "fst (shouldUpdateBeIgnored (Some (package_of ''h2'' True))
     (default_sync_options\<lparr>rollbackRetryOptions :=
        JObject [(''delayInHours'', JNum (to_double (1 / 10))), (''maxRetryAttempts'', JNum 1)]\<rparr>)
     (Some \<lparr>time = 3600000, count = 1, packageHash = ''h2''\<rparr>) (3600000 + 360000)) = False"
proof -
  show below: "(360000 / 3600000 :: real) < to_double (1 / 10)" by code_simp
  show hours: "double_divide (double_minus (3600000 + 360000) 3600000) 3600000 = to_double (1 / 10)"
    by code_simp
  then have "to_double (1 / 10) \<le> double_divide (double_minus 3960000 3600000) 3600000"
    by simp
  then show "fst (shouldUpdateBeIgnored (Some (package_of ''h2'' True))
     (default_sync_options\<lparr>rollbackRetryOptions :=
        JObject [(''delayInHours'', JNum (to_double (1 / 10))), (''maxRetryAttempts'', JNum 1)]\<rparr>)
     (Some \<lparr>time = 3600000, count = 1, packageHash = ''h2''\<rparr>) (3600000 + 360000)) = False"
    by (simp add: shouldUpdateBeIgnored_def package_of_def default_sync_options_def
        effective_retry_options_def spread_def get_property_def validateRollbackRetryOptions_def
        validateLatestRollbackInfo_def DEFAULT_ROLLBACK_RETRY_OPTIONS_def)
qed

text \<open>
  C3 as stated fails at a persisted record whose count is 0: the candidate failed,
  \<open>ignoreFailedUpdates\<close> is true, the policy \<^verbatim>\<open>{ delayInHours: 24,
  maxRetryAttempts: 1 }\<close> is valid, the hash matches, 25 hours have elapsed and the
  count is at most 1, and yet the update is ignored, with the line that the rollback
  record is not valid.
\<close>

theorem shouldUpdateBeIgnored_zero_count_counterexample:
  "shouldUpdateBeIgnored (Some (package_of ''h2'' True))
     (default_sync_options\<lparr>rollbackRetryOptions :=
        JObject [(''delayInHours'', JNum 24), (''maxRetryAttempts'', JNum 1)]\<rparr>)
     (Some \<lparr>time = 3600000, count = 0, packageHash = ''h2''\<rparr>) (26 * 3600000)
     = (True, [''The latest rollback info is not valid.'']) \<and>
   RemotePackage.failedInstall (package_of ''h2'' True) \<and>
   Update.packageHash (package_of ''h2'' True) = Some ''h2'' \<and>
   double_divide (double_minus (26 * 3600000) 3600000) 3600000 \<ge> 24 \<and> of_int 0 \<le> (1 :: real)"
proof -
  have hours: "double_divide (double_minus (26 * 3600000) 3600000) 3600000 \<ge> 24"
    by code_simp
  then show ?thesis
    by (simp add: shouldUpdateBeIgnored_def package_of_def default_sync_options_def
        effective_retry_options_def spread_def get_property_def validateRollbackRetryOptions_def
        validateLatestRollbackInfo_def DEFAULT_ROLLBACK_RETRY_OPTIONS_def)
qed

section \<open>Claims about the update check\<close>


lemma effects_getConfiguration: "effects (snd (getConfiguration m)) = effects m"
  by (auto simp: getConfiguration_def getConfiguration_begin_def getConfiguration_resolved_def new_object_def split: option.splits)




section \<open>Claims about the cached configuration and the status report\<close>

lemma frame_emit:
  "objects (emit e m) = objects m"
  "next_object (emit e m) = next_object m"
  "getConfiguration_config (emit e m) = getConfiguration_config m"
  "testConfig (emit e m) = testConfig m"
  "NativeCodePush_getConfiguration (emit e m) = NativeCodePush_getConfiguration m"
  "listeners_added (emit e m) = listeners_added m"
  "effects (emit e m) = effects m @ [e]"
  by (simp_all add: emit_def)

lemma frame_log:
  "objects (log_line line m) = objects m"
  "next_object (log_line line m) = next_object m"
  "getConfiguration_config (log_line line m) = getConfiguration_config m"
  "testConfig (log_line line m) = testConfig m"
  "NativeCodePush_getConfiguration (log_line line m) = NativeCodePush_getConfiguration m"
  "listeners_added (log_line line m) = listeners_added m"
  "effects (log_line line m) = effects m @ [Logged line]"
  by (simp_all add: log_line_def)

lemma frame_report_failed:
  "objects (report_failed r l m) = objects m"
  "next_object (report_failed r l m) = next_object m"
  "getConfiguration_config (report_failed r l m) = getConfiguration_config m"
  "testConfig (report_failed r l m) = testConfig m"
  "NativeCodePush_getConfiguration (report_failed r l m) = NativeCodePush_getConfiguration m"
  by (simp_all add: report_failed_def Let_def frame_emit split: option.splits)

lemma frame_report_succeeded:
  "objects (report_succeeded r l m) = objects m"
  "next_object (report_succeeded r l m) = next_object m"
  "getConfiguration_config (report_succeeded r l m) = getConfiguration_config m"
  "testConfig (report_succeeded r l m) = testConfig m"
  "NativeCodePush_getConfiguration (report_succeeded r l m) = NativeCodePush_getConfiguration m"
  by (simp_all add: report_succeeded_def Let_def frame_emit split: option.splits)

lemma effects_report_failed:
  "effects (report_failed r l m) =
     effects m @ [LoggedReportStatusFailed r, SaveStatusReportForRetry r] @
       (case l of None \<Rightarrow> [ResumeListenerAdded (listeners_added m)] | Some listener \<Rightarrow> [])"
  by (simp add: report_failed_def Let_def frame_emit split: option.splits)

text \<open>Once the configuration has been read, reading it again yields the same reference
  and changes nothing; the reference depends on the two variables only.\<close>

lemma getConfiguration_again:
  "getConfiguration (snd (getConfiguration m)) = (fst (getConfiguration m), snd (getConfiguration m))"
  by (auto simp: getConfiguration_def getConfiguration_begin_def getConfiguration_resolved_def new_object_def split: option.splits)

lemma getConfiguration_held:
  "getConfiguration_config m \<noteq> None \<or> testConfig m \<noteq> None \<Longrightarrow>
     getConfiguration m =
       ((case getConfiguration_config m of Some r \<Rightarrow> r | None \<Rightarrow> the (testConfig m)), m)"
  by (auto simp: getConfiguration_def getConfiguration_begin_def getConfiguration_resolved_def split: option.splits)

lemma getConfiguration_holds:
  "getConfiguration_config (snd (getConfiguration m)) \<noteq> None \<or>
   testConfig (snd (getConfiguration m)) \<noteq> None"
  by (auto simp: getConfiguration_def getConfiguration_begin_def getConfiguration_resolved_def new_object_def split: option.splits)

lemma getConfiguration_in_use:
  "well_formed m \<Longrightarrow>
     fst (getConfiguration m) < next_object (snd (getConfiguration m)) \<and>
     well_formed (snd (getConfiguration m))"
  by (auto simp: getConfiguration_def getConfiguration_begin_def getConfiguration_resolved_def new_object_def well_formed_def split: option.splits)

lemma tryReportStatus_resumed_frame:
  assumes "\<not> truthy_string (StatusReport.appVersion statusReport)"
    and "package statusReport = Some reported"
  shows "getConfiguration_config (tryReportStatus_resumed config statusReport l d m)
      = getConfiguration_config m"
    and "testConfig (tryReportStatus_resumed config statusReport l d m) = testConfig m"
    and "next_object (tryReportStatus_resumed config statusReport l d m) = next_object m"
    and "NativeCodePush_getConfiguration (tryReportStatus_resumed config statusReport l d m)
      = NativeCodePush_getConfiguration m"
    and "objects (tryReportStatus_resumed config statusReport l d m)
      = (objects m)
          (config := (objects m config)
             \<lparr>Configuration.deploymentKey := ReportedPackage.deploymentKey reported\<rparr>)"
  using assms
  by (simp_all add: tryReportStatus_resumed_def Let_def frame_emit frame_log
      frame_report_failed frame_report_succeeded)

lemma tryReportStatus_frame:
  assumes "\<not> truthy_string (StatusReport.appVersion statusReport)"
    and "package statusReport = Some reported"
  shows "getConfiguration_config (tryReportStatus statusReport l d m)
      = getConfiguration_config (snd (getConfiguration m))"
    and "testConfig (tryReportStatus statusReport l d m) = testConfig (snd (getConfiguration m))"
    and "objects (tryReportStatus statusReport l d m)
      = (objects (snd (getConfiguration m)))
          (fst (getConfiguration m) :=
             (objects (snd (getConfiguration m)) (fst (getConfiguration m)))
               \<lparr>Configuration.deploymentKey := ReportedPackage.deploymentKey reported\<rparr>)"
  using tryReportStatus_resumed_frame [OF assms]
  by (simp_all add: tryReportStatus_def split_beta)

lemma checkForUpdate_frame:
  "snd (checkForUpdate key callback env m) =
     (snd (snd (check_configuration key m)))
       \<lparr>effects := effects (snd (checkForUpdate key callback env m))\<rparr>"
  by (auto simp: checkForUpdate_def Let_def split_beta log_line_def emit_def
      split: sum.splits option.splits)

text \<open>The references a module holds stay in use: a module that has just been loaded
  is well formed, and the calls keep it so.\<close>

lemma well_formed_fresh: "well_formed (fresh_module native)"
  by (simp add: well_formed_def fresh_module_def)

lemma well_formed_effects: "well_formed (m\<lparr>effects := es\<rparr>) = well_formed m"
  by (simp add: well_formed_def split: option.splits)

lemma well_formed_checkForUpdate:
  assumes "well_formed m"
  shows "well_formed (snd (checkForUpdate key callback env m))"
proof -
  from assms have "well_formed (snd (getConfiguration m))"
    using getConfiguration_in_use [of m] by simp
  then have "well_formed (snd (snd (check_configuration key m)))"
    by (auto simp: check_configuration_def new_object_def split_beta well_formed_def
        split: option.splits)
  then show ?thesis
    by (subst checkForUpdate_frame) (simp add: well_formed_effects)
qed

lemma well_formed_tryReportStatus:
  assumes "well_formed m"
  shows "well_formed (tryReportStatus statusReport l d m)"
proof -
  from assms have "well_formed (snd (getConfiguration m))"
    using getConfiguration_in_use [of m] by simp
  then show ?thesis
    by (auto simp: tryReportStatus_def tryReportStatus_resumed_def Let_def split_beta well_formed_def frame_emit frame_log
        frame_report_failed frame_report_succeeded split: option.splits)
qed

lemma getConfiguration_same_variables:
  assumes "getConfiguration_config m' = getConfiguration_config (snd (getConfiguration m))"
    and "testConfig m' = testConfig (snd (getConfiguration m))"
  shows "getConfiguration m' = (fst (getConfiguration m), m')"
proof -
  let ?m0 = "snd (getConfiguration m)"
  have held: "getConfiguration_config ?m0 \<noteq> None \<or> testConfig ?m0 \<noteq> None"
    by (rule getConfiguration_holds)
  then have held': "getConfiguration_config m' \<noteq> None \<or> testConfig m' \<noteq> None"
    using assms by simp
  from getConfiguration_held [OF held] getConfiguration_again [of m]
  have "fst (getConfiguration m)
      = (case getConfiguration_config ?m0 of Some r \<Rightarrow> r | None \<Rightarrow> the (testConfig ?m0))"
    by (metis fst_conv)
  with getConfiguration_held [OF held'] assms show ?thesis by (simp split: option.splits)
qed

text \<open>
  C10, as the code has it. When \<open>tryReportStatus\<close> processes the report of a
  CodePush update, it assigns the deployment key of the reported package to the
  configuration object that its own call of \<open>getConfiguration\<close> returned, and to no
  other. When nothing else runs while \<open>tryReportStatus\<close> waits for that call (no
  other call of \<open>getConfiguration\<close> is waiting for the native module), that object
  is the one \<open>getConfiguration\<close> hands out from then on: a later
  \<open>getConfiguration\<close> yields the same object, now with the reported key, and a later
  \<open>checkForUpdate\<close> without a key of its own works with that object and gives its
  remote package that key. A \<open>checkForUpdate\<close> with a key of its own leaves the
  object that \<open>getConfiguration\<close> hands out as it was: the key goes into a new
  object.
\<close>

theorem cached_configuration_is_shared:
  "(\<not> truthy_string (StatusReport.appVersion statusReport) \<and> package statusReport = Some reported \<longrightarrow>
      objects (tryReportStatus_resumed config statusReport retryOnAppResume delivered m)
        = (objects m)(config := (objects m config)
             \<lparr>Configuration.deploymentKey := ReportedPackage.deploymentKey reported\<rparr>) \<and>
      getConfiguration_config (tryReportStatus_resumed config statusReport retryOnAppResume delivered m)
        = getConfiguration_config m \<and>
      fst (getConfiguration (tryReportStatus statusReport retryOnAppResume delivered m))
        = fst (getConfiguration m) \<and>
      Configuration.deploymentKey
        (objects (snd (getConfiguration (tryReportStatus statusReport retryOnAppResume delivered m)))
           (fst (getConfiguration m)))
        = ReportedPackage.deploymentKey reported \<and>
      check_configuration None (tryReportStatus statusReport retryOnAppResume delivered m)
        = (fst (getConfiguration m), fst (getConfiguration m),
           tryReportStatus statusReport retryOnAppResume delivered m) \<and>
      (\<forall>callback env remotePackage.
         fst (checkForUpdate None callback env
                (tryReportStatus statusReport retryOnAppResume delivered m))
           = Inr (Some remotePackage) \<longrightarrow>
         Update.deploymentKey remotePackage = ReportedPackage.deploymentKey reported)) \<and>
   (well_formed m \<and> truthy_string key \<longrightarrow>
      fst (getConfiguration (snd (checkForUpdate key callback' env' m))) = fst (getConfiguration m) \<and>
      objects (snd (getConfiguration (snd (checkForUpdate key callback' env' m))))
          (fst (getConfiguration m))
        = objects (snd (getConfiguration m)) (fst (getConfiguration m)))"
proof (intro conjI impI)
  let ?m' = "tryReportStatus statusReport retryOnAppResume delivered m"
  let ?r = "fst (getConfiguration m)"
  assume a: "\<not> truthy_string (StatusReport.appVersion statusReport) \<and> package statusReport = Some reported"
  then have app: "\<not> truthy_string (StatusReport.appVersion statusReport)"
    and pkg: "package statusReport = Some reported" by simp_all
  note resumed = tryReportStatus_resumed_frame [OF app pkg, of config retryOnAppResume delivered m]
  show "objects (tryReportStatus_resumed config statusReport retryOnAppResume delivered m)
        = (objects m)(config := (objects m config)
             \<lparr>Configuration.deploymentKey := ReportedPackage.deploymentKey reported\<rparr>)"
    by (rule resumed(5))
  show "getConfiguration_config (tryReportStatus_resumed config statusReport retryOnAppResume delivered m)
        = getConfiguration_config m"
    by (rule resumed(1))
  note frame = tryReportStatus_frame [OF app pkg, of retryOnAppResume delivered m]
  have g: "getConfiguration ?m' = (?r, ?m')"
    using frame(1,2) by (rule getConfiguration_same_variables)
  then show "fst (getConfiguration ?m') = ?r" by simp
  have k: "Configuration.deploymentKey (objects ?m' ?r) = ReportedPackage.deploymentKey reported"
    by (simp add: frame(3))
  with g show "Configuration.deploymentKey (objects (snd (getConfiguration ?m')) ?r)
      = ReportedPackage.deploymentKey reported" by simp
  show c: "check_configuration None ?m' = (?r, ?r, ?m')"
    using g by (simp add: check_configuration_def truthy_string_def)
  show "\<forall>callback env remotePackage.
      fst (checkForUpdate None callback env ?m') = Inr (Some remotePackage) \<longrightarrow>
      Update.deploymentKey remotePackage = ReportedPackage.deploymentKey reported"
  proof (intro allI impI)
    fix callback env remotePackage
    assume r: "fst (checkForUpdate None callback env ?m') = Inr (Some remotePackage)"
    then show "Update.deploymentKey remotePackage = ReportedPackage.deploymentKey reported"
      unfolding checkForUpdate_def c
      by (auto simp: Let_def string_or_def truthy_string_def k
          split: sum.splits option.splits if_splits)
  qed
next
  let ?m0 = "snd (getConfiguration m)"
  let ?r = "fst (getConfiguration m)"
  let ?m' = "snd (checkForUpdate key callback' env' m)"
  assume a: "well_formed m \<and> truthy_string key"
  then have use: "?r < next_object ?m0" using getConfiguration_in_use [of m] by simp
  let ?m1 = "snd (snd (check_configuration key m))"
  have m1: "?m1 = ?m0\<lparr>objects := (objects ?m0)
      (next_object ?m0 := (objects ?m0 ?r)\<lparr>Configuration.deploymentKey := key\<rparr>),
      next_object := Suc (next_object ?m0)\<rparr>"
    using a by (simp add: check_configuration_def new_object_def split_beta)
  have m': "?m' = ?m1\<lparr>effects := effects ?m'\<rparr>" by (rule checkForUpdate_frame)
  have vars: "getConfiguration_config ?m' = getConfiguration_config ?m0"
    "testConfig ?m' = testConfig ?m0"
    by (subst m', simp add: m1)+
  have obj: "objects ?m' ?r = objects ?m0 ?r"
    using use by (subst m', simp add: m1)
  have g: "getConfiguration ?m' = (?r, ?m')"
    using vars by (rule getConfiguration_same_variables)
  then show "fst (getConfiguration ?m') = ?r" by simp
  from g obj show "objects (snd (getConfiguration ?m')) ?r = objects ?m0 ?r" by simp
qed

text \<open>The theorem on a module that has not read its configuration yet, with nothing
  else running. After the report of an update deployed from \<^verbatim>\<open>staging-key\<close>,
  \<open>getConfiguration\<close> hands out the object 0 with that key in place of the native
  \<^verbatim>\<open>native-key\<close>, and a check without a key of its own that finds an update returns
  a remote package with \<^verbatim>\<open>staging-key\<close>. After a check with the key
  \<^verbatim>\<open>override\<close>, the object 0 still has the native key.\<close>

theorem cached_configuration_is_shared_witness:
  "getConfiguration (fresh_module sample_configuration)
     = (0, (fresh_module sample_configuration)
             \<lparr>objects := (objects (fresh_module sample_configuration))(0 := sample_configuration),
              next_object := 1, getConfiguration_config := Some 0\<rparr>) \<and>
   fst (getConfiguration (tryReportStatus codepush_report None True (fresh_module sample_configuration))) = 0 \<and>
   Configuration.deploymentKey
     (objects (snd (getConfiguration
        (tryReportStatus codepush_report None True (fresh_module sample_configuration)))) 0)
     = Some ''staging-key'' \<and>
   fst (checkForUpdate None NoCallback (sdk_environment None (Some (update_of ''h2'')))
         (tryReportStatus codepush_report None True (fresh_module sample_configuration)))
     = Inr (Some ((package_of ''h2'' False)\<lparr>Update.deploymentKey := Some ''staging-key''\<rparr>)) \<and>
   fst (getConfiguration (snd (checkForUpdate (Some ''override'') NoCallback
        (sdk_environment None (Some (update_of ''h2''))) (fresh_module sample_configuration)))) = 0 \<and>
   Configuration.deploymentKey
     (objects (snd (getConfiguration (snd (checkForUpdate (Some ''override'') NoCallback
        (sdk_environment None (Some (update_of ''h2''))) (fresh_module sample_configuration))))) 0)
     = Some ''native-key''"
proof -
  let ?m = "fresh_module sample_configuration"
  let ?m' = "tryReportStatus codepush_report None True ?m"
  let ?env = "sdk_environment None (Some (update_of ''h2''))"
  let ?reported = "\<lparr>ReportedPackage.label = Some ''v5'', packageHash = Some ''h5'',
      deploymentKey = Some ''staging-key''\<rparr>"
  have g: "getConfiguration ?m
     = (0, ?m\<lparr>objects := (objects ?m)(0 := sample_configuration),
              next_object := 1, getConfiguration_config := Some 0\<rparr>)"
    by (simp add: getConfiguration_def getConfiguration_begin_def getConfiguration_resolved_def
        new_object_def fresh_module_def)
  have wf: "well_formed ?m" by (simp add: well_formed_def fresh_module_def)
  have report: "\<not> truthy_string (StatusReport.appVersion codepush_report) \<and>
      package codepush_report = Some ?reported"
    by (simp add: codepush_report_def truthy_string_def)
  have key: "truthy_string (Some ''override'')" by (simp add: truthy_string_def)
  note shared = cached_configuration_is_shared [of codepush_report ?reported 0 None True ?m
      "Some ''override''" NoCallback ?env]
  from shared report
  have c: "check_configuration None ?m' = (fst (getConfiguration ?m), fst (getConfiguration ?m), ?m')"
    by blast
  have obj: "objects ?m' 0
      = sample_configuration\<lparr>Configuration.deploymentKey := Some ''staging-key''\<rparr>"
    using tryReportStatus_frame(3) [of codepush_report ?reported None True ?m] report g
    by simp
  have k': "Configuration.deploymentKey (objects ?m' 0) = Some ''staging-key''"
    by (simp add: obj)
  have hash: "Configuration.packageHash (objects ?m' 0) = Some ''binary-hash''"
    unfolding obj by (simp add: sample_configuration_def)
  have 4: "fst (checkForUpdate None NoCallback ?env ?m')
     = Inr (Some ((package_of ''h2'' False)\<lparr>Update.deploymentKey := Some ''staging-key''\<rparr>))"
    unfolding checkForUpdate_def c g
    by (simp add: k' hash resolve_update_def sdk_environment_def with_bundle_host_def
        update_of_def package_of_def string_or_def truthy_string_def)
  from shared report wf key 4 show ?thesis
    unfolding g by (simp add: sample_configuration_def)
qed

text \<open>
  C10 as stated fails at the start of the application with a report pending. The
  call of \<open>getConfiguration\<close> by \<open>tryReportStatus\<close> and the one by
  \<open>checkForUpdate\<close> both find the cache empty and each receives an object of its
  own, 0 and 1. The reported key \<^verbatim>\<open>staging-key\<close> is assigned to the object 0, and
  the cache ends with the object 1: a later \<open>getConfiguration\<close> hands out the object
  1 with the native key, and a later \<open>checkForUpdate\<close> without a key of its own
  gives its remote package the native key.
\<close>

theorem cached_configuration_start_up_counterexample:
  "getConfiguration_begin (fresh_module sample_configuration) = None \<and>
   Configuration.deploymentKey (objects (start_up_with_report sample_configuration codepush_report) 0)
     = Some ''staging-key'' \<and>
   fst (getConfiguration (start_up_with_report sample_configuration codepush_report)) = 1 \<and>
   Configuration.deploymentKey
     (objects (snd (getConfiguration (start_up_with_report sample_configuration codepush_report))) 1)
     = Some ''native-key'' \<and>
   fst (checkForUpdate None NoCallback (sdk_environment None (Some (update_of ''h2'')))
         (start_up_with_report sample_configuration codepush_report))
     = Inr (Some ((package_of ''h2'' False)\<lparr>Update.deploymentKey := Some ''native-key''\<rparr>))"
  by (simp add: start_up_with_report_def getConfiguration_def getConfiguration_begin_def
      getConfiguration_resolved_def new_object_def fresh_module_def tryReportStatus_resumed_def
      codepush_report_def sample_configuration_def truthy_string_def string_or_def nullish_def
      log_line_def emit_def report_succeeded_def Let_def checkForUpdate_def
      check_configuration_def resolve_update_def query_package_def sdk_environment_def
      with_bundle_host_def update_of_def package_of_def file_name_def)

text \<open>
  C6, as the code has it. When the report of a binary update is processed and the
  configuration has no deployment key, nothing is sent: the error raised for the
  missing key is caught inside \<open>tryReportStatus\<close>, which logs the failed report, saves
  the report for retry and, unless it was itself called by a resume listener, adds a
  resume listener. This is so whether a delivery would have succeeded or not.
\<close>

theorem tryReportStatus_missing_key_is_retried:
  assumes "truthy_string (StatusReport.appVersion statusReport)"
    and "\<not> truthy_string (Configuration.deploymentKey
           (objects (snd (getConfiguration m)) (fst (getConfiguration m))))"
  shows "effects (tryReportStatus statusReport retryOnAppResume delivered m) =
     effects m @
       [Logged (''Reporting binary update ('' @ nullish (StatusReport.appVersion statusReport) [] @ '')''),
        LoggedReportStatusFailed statusReport, SaveStatusReportForRetry statusReport] @
       (case retryOnAppResume of
          None \<Rightarrow> [ResumeListenerAdded (listeners_added m)]
        | Some listener \<Rightarrow> [])"
proof -
  have l: "listeners_added (snd (getConfiguration m)) = listeners_added m"
    by (auto simp: getConfiguration_def getConfiguration_begin_def getConfiguration_resolved_def new_object_def split: option.splits)
  from assms show ?thesis
    by (simp add: tryReportStatus_def tryReportStatus_resumed_def Let_def split_beta frame_log effects_report_failed
        effects_getConfiguration l split: option.splits)
qed

text \<open>The theorem at the report of a binary update to 1.0.0 on a native side without
  a deployment key, called from the application-ready notification (no listener).\<close>

theorem tryReportStatus_missing_key_is_retried_witness:
  "effects (tryReportStatus binary_report None False
     (fresh_module (sample_configuration\<lparr>Configuration.deploymentKey := None\<rparr>)))
   = [Logged ''Reporting binary update (1.0.0)'', LoggedReportStatusFailed binary_report,
      SaveStatusReportForRetry binary_report, ResumeListenerAdded 0]"
proof -
  let ?m = "fresh_module (sample_configuration\<lparr>Configuration.deploymentKey := None\<rparr>)"
  have app: "truthy_string (StatusReport.appVersion binary_report)"
    by (simp add: binary_report_def truthy_string_def)
  have key: "\<not> truthy_string (Configuration.deploymentKey
           (objects (snd (getConfiguration ?m)) (fst (getConfiguration ?m))))"
    by (simp add: getConfiguration_def getConfiguration_begin_def getConfiguration_resolved_def new_object_def fresh_module_def truthy_string_def)
  from tryReportStatus_missing_key_is_retried [OF app key, of None False]
  show ?thesis by (simp add: fresh_module_def binary_report_def nullish_def)
qed

text \<open>
  C6 as stated fails: at the report of a binary update to 1.0.0, with no deployment
  key configured and a network that would deliver, the call returns normally, the
  report is saved for retry and a resume listener is added; when the application
  becomes active again with the report still pending, that listener runs the report
  again, with the same outcome.
\<close>

theorem tryReportStatus_missing_key_counterexample:
  "effects (tryReportStatus binary_report None True
     (fresh_module (sample_configuration\<lparr>Configuration.deploymentKey := None\<rparr>)))
   = [Logged ''Reporting binary update (1.0.0)'', LoggedReportStatusFailed binary_report,
      SaveStatusReportForRetry binary_report, ResumeListenerAdded 0] \<and>
   effects (resumeListener 0 ''active''
       ((sdk_environment None None)\<lparr>getNewStatusReport := Some binary_report\<rparr>) True
       (tryReportStatus binary_report None True
          (fresh_module (sample_configuration\<lparr>Configuration.deploymentKey := None\<rparr>))))
   = [Logged ''Reporting binary update (1.0.0)'', LoggedReportStatusFailed binary_report,
      SaveStatusReportForRetry binary_report, ResumeListenerAdded 0,
      Logged ''Reporting binary update (1.0.0)'', LoggedReportStatusFailed binary_report,
      SaveStatusReportForRetry binary_report]"
  by (simp add: resumeListener_def tryReportStatus_def tryReportStatus_resumed_def getConfiguration_def getConfiguration_begin_def getConfiguration_resolved_def new_object_def
      fresh_module_def sample_configuration_def sdk_environment_def binary_report_def
      truthy_string_def string_or_def nullish_def log_line_def emit_def report_failed_def Let_def)

section \<open>Claims about the single-flight guard\<close>

text \<open>While the guard is set, a call of \<open>sync\<close> returns a promise resolved with
  \<open>SYNC_IN_PROGRESS\<close>; it starts no run and leaves the runs in flight, the job queue
  and the guard as they are. It tells the status callback, or logs a line.\<close>

lemma sync_while_in_progress:
  assumes "syncInProgress st"
  shows "fst (sync hasStatusCallback st) = Promise_resolve SYNC_IN_PROGRESS"
    and "snd (sync hasStatusCallback st) =
      (if hasStatusCallback
       then st\<lparr>statusCallbackCalls := statusCallbackCalls st @ [SYNC_IN_PROGRESS]\<rparr>
       else st\<lparr>logged := logged st @ [''Sync already in progress.'']\<rparr>)"
    and "runs (snd (sync hasStatusCallback st)) = runs st"
    and "unsettled (snd (sync hasStatusCallback st)) = unsettled st"
    and "jobs (snd (sync hasStatusCallback st)) = jobs st"
    and "syncInProgress (snd (sync hasStatusCallback st))"
  using assms by (simp_all add: sync_def)

lemma sync_when_idle:
  assumes "\<not> syncInProgress st"
  shows "sync hasStatusCallback st =
     (syncPromise (runs st),
      st\<lparr>syncInProgress := True, runs := Suc (runs st), unsettled := unsettled st @ [runs st]\<rparr>)"
  using assms by (simp add: sync_def)

text \<open>The guard is set exactly while a run is unsettled or a job that clears the guard
  is still queued, and there is never more than one of these.\<close>

lemma guard_accounts_sync:
  assumes "guard_accounts st"
  shows "guard_accounts (snd (sync hasStatusCallback st))"
proof (cases "syncInProgress st")
  case True
  with assms show ?thesis by (simp add: sync_def guard_accounts_def)
next
  case False
  with assms have "unsettled st = []" and "filter clears (jobs st) = []"
    by (simp_all add: guard_accounts_def)
  with False show ?thesis by (simp add: sync_def guard_accounts_def)
qed

lemma guard_accounts_settle:
  assumes "guard_accounts st"
  shows "guard_accounts (settle n outcome st)"
proof (cases "n \<in> set (unsettled st)")
  case False
  with assms show ?thesis by (simp add: settle_def)
next
  case True
  then have pos: "1 \<le> length (unsettled st)" by (cases "unsettled st") auto
  from assms have eq: "length (unsettled st) + length (filter clears (jobs st))
      = (if syncInProgress st then 1 else 0)"
    by (simp add: guard_accounts_def)
  from pos eq have flag: "syncInProgress st" by (cases "syncInProgress st") auto
  with eq have sum: "length (unsettled st) + length (filter clears (jobs st)) = 1" by simp
  from pos sum have one: "length (unsettled st) = 1" by arith
  from pos sum have "length (filter clears (jobs st)) = 0" by arith
  then have none: "filter clears (jobs st) = []" by simp
  from one True have "unsettled st = [n]" by (cases "unsettled st") auto
  with True flag none show ?thesis
    by (simp add: settle_def guard_accounts_def filter_map o_def)
qed

lemma guard_accounts_run_job:
  assumes "guard_accounts (st\<lparr>jobs := j # rest\<rparr>)"
  shows "guard_accounts (run_job j (st\<lparr>jobs := rest\<rparr>))"
proof (cases j)
  case (Then_setSyncCompleted n outcome)
  with assms show ?thesis
    by (cases outcome) (auto simp: guard_accounts_def setSyncCompleted_def split: if_splits)
next
  case (Catch_setSyncCompleted n rejected)
  with assms show ?thesis
    by (auto simp: guard_accounts_def setSyncCompleted_def split: if_splits)
next
  case (Caller_calls_sync n outcome)
  from assms Caller_calls_sync have "guard_accounts (st\<lparr>jobs := rest\<rparr>)"
    by (simp add: guard_accounts_def)
  from guard_accounts_sync [OF this, of False] Caller_calls_sync show ?thesis
    by (simp add: split_beta guard_accounts_def)
qed

lemma guard_accounts_step:
  assumes "guard_accounts st"
  shows "guard_accounts (step st e)"
proof (cases e)
  case (Call_sync hasStatusCallback)
  from guard_accounts_sync [OF assms, of hasStatusCallback] Call_sync show ?thesis
    by (simp add: split_beta guard_accounts_def)
next
  case (Caller_then n)
  from assms have "guard_accounts (caller_then n st)"
    unfolding guard_accounts_def caller_then_def by (cases "n \<in> set (unsettled st)") simp_all
  with Caller_then show ?thesis by simp
next
  case (Settle n outcome)
  with assms show ?thesis by (simp add: guard_accounts_settle)
next
  case Next_job
  show ?thesis
  proof (cases "jobs st")
    case Nil
    with assms Next_job show ?thesis by (simp add: run_next_job_def)
  next
    case (Cons j rest)
    then have "st\<lparr>jobs := j # rest\<rparr> = st" by simp
    with assms have "guard_accounts (st\<lparr>jobs := j # rest\<rparr>)" by simp
    from guard_accounts_run_job [OF this] Cons Next_job show ?thesis
      by (simp add: run_next_job_def)
  qed
qed

lemma guard_accounts_foldl:
  "guard_accounts st \<Longrightarrow> guard_accounts (foldl step st events)"
  by (induction events arbitrary: st) (simp_all add: guard_accounts_step)

lemma guard_accounts_after: "guard_accounts (after events)"
  unfolding after_def
  by (rule guard_accounts_foldl) (simp add: guard_accounts_def module_loaded_def)

text \<open>Single flight: whatever has happened, at most one run is unsettled, and the guard
  is set while one is. Once the job queue is empty, the guard is set only while a run
  is unsettled, so that a call of \<open>sync\<close> is let through when none is.\<close>

lemma single_flight:
  "length (unsettled (after events)) \<le> 1"
  "unsettled (after events) \<noteq> [] \<Longrightarrow> syncInProgress (after events)"
  "jobs (after events) = [] \<Longrightarrow> syncInProgress (after events) \<longleftrightarrow> unsettled (after events) \<noteq> []"
  using guard_accounts_after [of events]
  by (auto simp: guard_accounts_def split: if_splits)

text \<open>
  C2 at a run that rejects. The caller calls \<open>sync\<close> (run 0 starts) and adds to the
  returned promise a reaction that calls \<open>sync\<close> again. Run 0 rejects. When the
  caller's reaction runs, no run is unsettled, and yet the guard is still set: the call
  returns \<open>SYNC_IN_PROGRESS\<close> and starts no run. The guard is cleared only by the job
  after it. Had run 0 resolved, the guard would have been cleared before the caller's
  reaction, and the second call would have started run 1.
\<close>

theorem sync_after_rejected_run_not_admitted:
  "unsettled (after [Call_sync False, Caller_then 0, Settle 0 (Rejected ''offline''), Next_job]) = [] \<and>
   syncInProgress (after [Call_sync False, Caller_then 0, Settle 0 (Rejected ''offline''), Next_job]) \<and>
   jobs (after [Call_sync False, Caller_then 0, Settle 0 (Rejected ''offline''), Next_job])
     = [Caller_calls_sync 0 (Rejected ''offline''), Catch_setSyncCompleted 0 True] \<and>
   returned (after [Call_sync False, Caller_then 0, Settle 0 (Rejected ''offline''), Next_job, Next_job])
     = [syncPromise 0, Promise_resolve SYNC_IN_PROGRESS] \<and>
   runs (after [Call_sync False, Caller_then 0, Settle 0 (Rejected ''offline''), Next_job, Next_job]) = 1 \<and>
   syncInProgress (after [Call_sync False, Caller_then 0, Settle 0 (Rejected ''offline''),
     Next_job, Next_job, Next_job]) = False \<and>
   returned (after [Call_sync False, Caller_then 0, Settle 0 (Resolved UP_TO_DATE), Next_job, Next_job])
     = [syncPromise 0, syncPromise 1] \<and>
   runs (after [Call_sync False, Caller_then 0, Settle 0 (Resolved UP_TO_DATE), Next_job, Next_job]) = 2"
  by (simp add: after_def module_loaded_def sync_def caller_then_def settle_def run_next_job_def
      setSyncCompleted_def)

end
